theory Spec2Isabelle
  imports Main
begin

section \<open>js2ics: from calendar options to iCalendar text\<close>

text \<open>
  The sources hold three revisions of the same module, all modelled below:
  \<^item> \<open>v1\<close>: \<^verbatim>\<open>src/index.js\<close>, lines 1 to 210 (the closure assigned to \<^verbatim>\<open>module.exports\<close>);
  \<^item> \<open>v2\<close>: \<^verbatim>\<open>src/unnamed/part_000\<close>;
  \<^item> \<open>v3\<close>: \<^verbatim>\<open>src/index.js\<close>, lines 211 to 365 (the revision that reads \<^verbatim>\<open>timeZone\<close>).

  The three agree, up to syntax, on the date, person, attendee and event validators, on
  \<^verbatim>\<open>formatCalendar\<close> and on \<^verbatim>\<open>toFile\<close>; these are defined once. They differ in
  \<^verbatim>\<open>validateFilePath\<close> (all three), and in how the time zone reaches the formatter
  (\<open>v1\<close> and \<open>v2\<close> read a module-level variable, \<open>v3\<close> reads the validated options); these
  carry the suffixes \<open>_v1\<close>, \<open>_v2\<close>, \<open>_v3\<close>.
\<close>

subsection \<open>JavaScript values\<close>

text \<open>
  An option field holds \<^verbatim>\<open>undefined\<close> (the field is missing), \<^verbatim>\<open>null\<close>, a boolean (the
  validators store \<^verbatim>\<open>false\<close> for "absent") or a value of the field's own type: a string,
  an object or an array.
\<close>

datatype 'a js = Undefined | Null | JBool bool | Val 'a

text \<open>What the code can throw: a \<^verbatim>\<open>TypeError\<close> (a property of \<^verbatim>\<open>undefined\<close> or \<^verbatim>\<open>null\<close> is
  read, or a Node function gets an argument that is not a string). A failed write is not
  thrown: Node hands it to the callback as an error object.\<close>

datatype error = TypeError | IOError string

text \<open>Truthiness of a value that is a string when it is a value at all: the empty string
  is falsy.\<close>

fun truthy :: "string js \<Rightarrow> bool" where
  "truthy Undefined = False"
| "truthy Null = False"
| "truthy (JBool b) = b"
| "truthy (Val s) = (s \<noteq> [])"

text \<open>Truthiness of a value that is an object or an array when it is a value at all:
  every object is truthy, the empty array too.\<close>

fun truthy_obj :: "'a js \<Rightarrow> bool" where
  "truthy_obj Undefined = False"
| "truthy_obj Null = False"
| "truthy_obj (JBool b) = b"
| "truthy_obj (Val x) = True"

text \<open>String conversion, as \<^verbatim>\<open>+\<close> with a string and a template literal do it.\<close>

fun toStr :: "string js \<Rightarrow> string" where
  "toStr Undefined = ''undefined''"
| "toStr Null = ''null''"
| "toStr (JBool b) = (if b then ''true'' else ''false'')"
| "toStr (Val s) = s"

text \<open>lodash's own \<^verbatim>\<open>toString\<close>, which \<^verbatim>\<open>_.endsWith\<close> applies to its first argument:
  \<^verbatim>\<open>undefined\<close> and \<^verbatim>\<open>null\<close> give the empty string.\<close>

fun lodash_toString :: "string js \<Rightarrow> string" where
  "lodash_toString Undefined = []"
| "lodash_toString Null = []"
| "lodash_toString v = toStr v"

text \<open>\<^verbatim>\<open>_.endsWith(string, target)\<close>: the last \<open>length target\<close> characters are \<open>target\<close>.\<close>

definition endsWith :: "string js \<Rightarrow> string \<Rightarrow> bool" where
  "endsWith string target =
     (let s = lodash_toString string
      in length target \<le> length s \<and> drop (length s - length target) s = target)"

text \<open>\<^verbatim>\<open>a || b\<close> on string-typed values.\<close>

definition js_or :: "string js \<Rightarrow> string js \<Rightarrow> string js" where
  "js_or a b = (if truthy a then a else b)"

text \<open>\<^verbatim>\<open>_.join(array, separator)\<close> on an array of strings.\<close>

fun join :: "string list \<Rightarrow> string \<Rightarrow> string" where
  "join [] sep = []"
| "join [x] sep = x"
| "join (x # y # ys) sep = x @ sep @ join (y # ys) sep"

text \<open>What lodash iterates over (\<^verbatim>\<open>_.map\<close>, \<^verbatim>\<open>_.filter\<close>, \<^verbatim>\<open>_.each\<close>, the \<^verbatim>\<open>_(...)\<close> wrapper):
  the elements of an array, nothing for \<^verbatim>\<open>undefined\<close>, \<^verbatim>\<open>null\<close> or a boolean.\<close>

fun collection :: "'a list js \<Rightarrow> 'a list" where
  "collection (Val xs) = xs"
| "collection Undefined = []"
| "collection Null = []"
| "collection (JBool b) = []"

text \<open>A callback that can throw, mapped over a list: the first throw ends the loop.\<close>

fun map_err :: "('a \<Rightarrow> error + 'b) \<Rightarrow> 'a list \<Rightarrow> error + 'b list" where
  "map_err f [] = Inr []"
| "map_err f (x # xs) =
     (case f x of
        Inl e \<Rightarrow> Inl e
      | Inr y \<Rightarrow> (case map_err f xs of Inl e \<Rightarrow> Inl e | Inr ys \<Rightarrow> Inr (y # ys)))"

subsection \<open>The option objects\<close>

text \<open>One record per kind of object. The raw and the validated form of an object share
  a record, as they share a shape in the source: \<^verbatim>\<open>validateCalendarOptions\<close> returns its
  argument itself when it is marked valid. A field that an object literal of the source
  does not set is \<open>Undefined\<close>.\<close>

record person =
  email :: "string js"
  name :: "string js"
  rsvp :: "string js"

record event_options =
  dtstamp :: "string js"
  organizer :: "person js"
  dtstart :: "string js"
  dtend :: "string js"
  summary :: "string js"
  description :: "string js"
  location :: "string js"
  attendees :: "person js list js"
  eventName :: "string js"

record calendar_options =
  isValid :: "string js"
  filename :: "string js"
  filePath :: "string js"
  events :: "event_options list js"
  timeZone :: "string js"

text \<open>The object literal \<^verbatim>\<open>{}\<close> passed to \<^verbatim>\<open>validateEventOptions\<close> for the default event.\<close>

definition empty_event :: event_options where
  "empty_event =
     \<lparr>dtstamp = Undefined, organizer = Undefined, dtstart = Undefined, dtend = Undefined,
      summary = Undefined, description = Undefined, location = Undefined,
      attendees = Undefined, eventName = Undefined\<rparr>"

subsection \<open>The platform: Node, the clock and the moment library\<close>

text \<open>An instant is a number of milliseconds since the Unix epoch, as a moment holds it.
  A \<open>civil\<close> value holds what the getters of a moment in local mode return
  (\<^verbatim>\<open>month()\<close> counts from 0).\<close>

type_synonym instant = int

record civil =
  year :: int
  month :: nat
  date :: nat
  hours :: nat
  minutes :: nat
  seconds :: nat

text \<open>
  Everything the module reads from outside itself, taken as a parameter:
  \<^item> \<open>TMPDIR\<close> is \<^verbatim>\<open>os.tmpdir()\<close>, \<open>SYSTEM_LINE_BREAK\<close> is \<^verbatim>\<open>os.EOL\<close>, \<open>tz_guess\<close> is
    \<^verbatim>\<open>momenttz.tz.guess()\<close> (the variable \<^verbatim>\<open>timezone\<close> of \<open>v1\<close> and \<open>v2\<close>, \<^verbatim>\<open>guessedTimezone\<close>
    of \<open>v3\<close>);
  \<^item> \<open>clock\<close> is the instant \<^verbatim>\<open>moment()\<close> reads;
  \<^item> \<open>utc_offset\<close> gives the minutes by which the host's zone is ahead of UTC at an
    instant (the negation of \<^verbatim>\<open>getTimezoneOffset()\<close> of the \<^verbatim>\<open>Date\<close> at that instant);
  \<^item> \<open>parse_input\<close> is what \<^verbatim>\<open>moment(s, inputTimeFormat)\<close> holds for a string \<open>s\<close> that is
    not a well-formed timestamp of that format (the parsing of the well-formed ones is
    modelled below): the instant parsed from \<open>s\<close>, or \<open>None\<close> for an invalid moment;
  \<^item> \<open>join_paths\<close> is \<^verbatim>\<open>path.join\<close> on two strings;
  \<^item> \<open>write_error\<close> is the outcome of writing \<open>data\<close> to \<open>path\<close>: the error's message, or
    \<open>None\<close> when the write succeeds.
\<close>

record host =
  TMPDIR :: string
  SYSTEM_LINE_BREAK :: string
  tz_guess :: string
  clock :: instant
  utc_offset :: "instant \<Rightarrow> int"
  parse_input :: "string \<Rightarrow> instant option"
  join_paths :: "string \<Rightarrow> string \<Rightarrow> string"
  write_error :: "string \<Rightarrow> string \<Rightarrow> string option"

text \<open>The calendar fields of an instant in UTC (the proleptic Gregorian calendar). Days
  are counted from the first of March of the year 0, in eras of 400 years (146097 days).
  \<open>day_of_era\<close> splits a day of an era into the year of the era and the day of that year,
  counted from the first of March: centuries of 36524 days (the fourth has a day more),
  then cycles of four years (1461 days), then years of 365 days (the fourth has a day
  more). From March on, five months have 153 days.\<close>

definition day_of_era :: "int \<Rightarrow> int \<times> int" where
  "day_of_era doe =
     (let c = min (doe div 36524) 3;
          r1 = doe - c * 36524;
          q = r1 div 1461;
          r2 = r1 mod 1461;
          y1 = min (r2 div 365) 3
      in (100 * c + 4 * q + y1, r2 - y1 * 365))"

definition utc_civil :: "instant \<Rightarrow> civil" where
  "utc_civil t =
     (let secs = t div 1000;
          days = secs div 86400;
          sod = secs mod 86400;
          z = days + 719468;
          era = z div 146097;
          yd = day_of_era (z mod 146097);
          doy = snd yd;
          mp = (5 * doy + 2) div 153;
          d = doy - (153 * mp + 2) div 5 + 1;
          m = (if mp < 10 then mp + 3 else mp - 9);
          y = fst yd + era * 400 + (if m \<le> 2 then 1 else 0)
      in \<lparr>year = y, month = nat (m - 1), date = nat d, hours = nat (sod div 3600),
          minutes = nat (sod mod 3600 div 60), seconds = nat (sod mod 60)\<rparr>)"

text \<open>The calendar fields of an instant in the host's zone, which a moment in local mode
  reads from the \<^verbatim>\<open>Date\<close> it holds: those of UTC, \<open>utc_offset\<close> minutes later.\<close>

definition local_time :: "host \<Rightarrow> instant \<Rightarrow> civil" where
  "local_time h t = utc_civil (t + utc_offset h t * 60000)"

text \<open>\<^verbatim>\<open>path.join\<close> of Node throws a \<^verbatim>\<open>TypeError\<close> when an argument is not a string.\<close>

fun path_join :: "host \<Rightarrow> string js \<Rightarrow> string js \<Rightarrow> error + string" where
  "path_join h (Val a) (Val b) = Inr (join_paths h a b)"
| "path_join h a b = Inl TypeError"

text \<open>\<^verbatim>\<open>fs.writeFile(file, data, callback)\<close> of Node: throws a \<^verbatim>\<open>TypeError\<close> when \<open>file\<close> is
  not a string; otherwise writes, and calls \<^verbatim>\<open>callback(err)\<close> with the error when the
  write failed and \<^verbatim>\<open>callback(null)\<close> when it succeeded. The callback's documented
  signature has the one parameter \<^verbatim>\<open>err\<close>: Node passes no second argument in either case,
  so a second parameter of the callback is \<^verbatim>\<open>undefined\<close>. The call is made once, after
  the write has ended; the result of the model is what that call returns.\<close>

fun fs_writeFile ::
  "host \<Rightarrow> string js \<Rightarrow> string \<Rightarrow> (error js \<Rightarrow> string js \<Rightarrow> 'r) \<Rightarrow> error + 'r" where
  "fs_writeFile h (Val file) data callback =
     (case write_error h file data of
        Some msg \<Rightarrow> Inr (callback (Val (IOError msg)) Undefined)
      | None \<Rightarrow> Inr (callback Null Undefined))"
| "fs_writeFile h file data callback = Inl TypeError"

subsection \<open>Formatting a moment\<close>

text \<open>The moment library is not in the sources; of its functions the module calls
  \<^verbatim>\<open>moment\<close>, \<^verbatim>\<open>add\<close> and \<^verbatim>\<open>format\<close>. \<^verbatim>\<open>format\<close> and \<^verbatim>\<open>add\<close> are modelled here, parsing in
  the next subsection.

  Decimal digits of a natural number, and zero filling: zeros in front up to the target
  length, a minus sign first for a negative number.\<close>

definition digit_char :: "nat \<Rightarrow> char" where
  "digit_char d = ''0123456789'' ! d"

fun digits :: "nat \<Rightarrow> string" where
  "digits n = (if n < 10 then [digit_char n] else digits (n div 10) @ [digit_char (n mod 10)])"

declare digits.simps [simp del]

definition zeroFill :: "int \<Rightarrow> nat \<Rightarrow> string" where
  "zeroFill number targetLength =
     (let absNumber = digits (nat \<bar>number\<bar>)
      in (if number \<ge> 0 then [] else ''-'')
         @ replicate (targetLength - length absNumber) (CHR ''0'') @ absNumber)"

text \<open>Modelled from the spec: \<^verbatim>\<open>format\<close> of the moment library, which is not in the
  sources. Section 3 of the specification fixes the rendered form as
  \<^verbatim>\<open>YYYYMMDDTHHmmss\<close>; the format string is read token by token, as the library documents
  it: \<^verbatim>\<open>YYYY\<close> is the year filled to four digits, \<^verbatim>\<open>MM\<close>, \<^verbatim>\<open>DD\<close>, \<^verbatim>\<open>HH\<close>, \<^verbatim>\<open>mm\<close>, \<^verbatim>\<open>ss\<close> are
  the month (counted from 1), the day, the hours, the minutes and the seconds filled to
  two digits, and any other character is copied (\<^verbatim>\<open>T\<close> is not a token).\<close>

fun format_tokens :: "civil \<Rightarrow> string \<Rightarrow> string" where
  "format_tokens c [] = []"
| "format_tokens c (x # xs) =
     (if take 4 (x # xs) = ''YYYY'' then zeroFill (year c) 4 @ format_tokens c (drop 3 xs)
      else if take 2 (x # xs) = ''MM'' then zeroFill (int (month c) + 1) 2 @ format_tokens c (drop 1 xs)
      else if take 2 (x # xs) = ''DD'' then zeroFill (int (date c)) 2 @ format_tokens c (drop 1 xs)
      else if take 2 (x # xs) = ''HH'' then zeroFill (int (hours c)) 2 @ format_tokens c (drop 1 xs)
      else if take 2 (x # xs) = ''mm'' then zeroFill (int (minutes c)) 2 @ format_tokens c (drop 1 xs)
      else if take 2 (x # xs) = ''ss'' then zeroFill (int (seconds c)) 2 @ format_tokens c (drop 1 xs)
      else x # format_tokens c xs)"

text \<open>Modelled from the spec: a moment of the library is an instant, or invalid (\<open>None\<close>);
  a valid one is formatted in the host's local time, an invalid one formats as
  \<^verbatim>\<open>Invalid date\<close> (the specification leaves the text for a malformed input open).\<close>

definition moment_format :: "host \<Rightarrow> instant option \<Rightarrow> string \<Rightarrow> string" where
  "moment_format h m fmt =
     (case m of None \<Rightarrow> ''Invalid date'' | Some t \<Rightarrow> format_tokens (local_time h t) fmt)"

text \<open>Modelled from the spec: \<^verbatim>\<open>add(n, 'h')\<close> of the moment library gives the instant \<open>n\<close>
  hours later (section 4.1: "current instant + fallbackOffsetHours hours", with offset 0
  for \<^verbatim>\<open>dtstamp\<close>, for which the source leaves the argument out: \<open>None\<close>).\<close>

definition moment_add_hours :: "instant option \<Rightarrow> int option \<Rightarrow> instant option" where
  "moment_add_hours m n =
     (case m of
        None \<Rightarrow> None
      | Some t \<Rightarrow> (case n of None \<Rightarrow> Some t | Some k \<Rightarrow> Some (t + k * 3600000)))"

subsection \<open>Parsing a moment\<close>

text \<open>Reading a number of exactly \<open>k\<close> decimal digits from the front of a string.\<close>

definition is_digit :: "char \<Rightarrow> bool" where
  "is_digit c = (c \<in> set ''0123456789'')"

definition digit_value :: "char \<Rightarrow> nat" where
  "digit_value c = of_char c - 48"

definition number_value :: "string \<Rightarrow> nat" where
  "number_value s = foldl (\<lambda>n c. 10 * n + digit_value c) 0 s"

definition take_number :: "nat \<Rightarrow> string \<Rightarrow> (nat \<times> string) option" where
  "take_number k s =
     (if k \<le> length s \<and> list_all is_digit (take k s)
      then Some (number_value (take k s), drop k s) else None)"

text \<open>Reading an offset from UTC, in minutes: the letter \<^verbatim>\<open>Z\<close>, or a sign, two digits of
  hours, an optional colon and two digits of minutes.\<close>

definition take_offset :: "string \<Rightarrow> (int \<times> string) option" where
  "take_offset s =
     (case s of
        [] \<Rightarrow> None
      | c # rest \<Rightarrow>
          if c = CHR ''Z'' then Some (0, rest)
          else if c = CHR ''+'' \<or> c = CHR ''-'' then
            (case take_number 2 rest of
               None \<Rightarrow> None
             | Some (hh, rest1) \<Rightarrow>
                 (case take_number 2 (if take 1 rest1 = '':'' then drop 1 rest1 else rest1) of
                    None \<Rightarrow> None
                  | Some (mm, rest2) \<Rightarrow>
                      Some ((if c = CHR ''+'' then 1 else - 1) * int (hh * 60 + mm), rest2)))
          else None)"

text \<open>The fields read from an input: the date and the time as written (the month counted
  from 1) and the offset \<open>tzm\<close> in minutes.\<close>

record parsed =
  a_year :: nat
  a_month :: nat
  a_date :: nat
  a_hour :: nat
  a_minute :: nat
  a_second :: nat
  tzm :: int

definition nothing_parsed :: parsed where
  "nothing_parsed =
     \<lparr>a_year = 0, a_month = 1, a_date = 1, a_hour = 0, a_minute = 0, a_second = 0, tzm = 0\<rparr>"

text \<open>Modelled from the spec: parsing by the moment library, which is not in the sources.
  Section 4.1 of the specification has a present timestamp parsed under the pattern
  \<^verbatim>\<open>YYYY-MM-DDTHH:mm:ssZ\<close>: date, time and numeric offset from UTC. The input is read along
  the format string, token by token: \<^verbatim>\<open>YYYY\<close> is four digits, \<^verbatim>\<open>MM\<close>, \<^verbatim>\<open>DD\<close>, \<^verbatim>\<open>HH\<close>, \<^verbatim>\<open>mm\<close>,
  \<^verbatim>\<open>ss\<close> are two digits each, \<^verbatim>\<open>Z\<close> is an offset, any other character of the format
  stands for itself, and nothing may follow. The result is \<open>None\<close> when the input is not
  of this exact shape.\<close>

fun parse_tokens :: "string \<Rightarrow> string \<Rightarrow> parsed \<Rightarrow> parsed option" where
  "parse_tokens [] input p = (if input = [] then Some p else None)"
| "parse_tokens (x # xs) input p =
     (if take 4 (x # xs) = ''YYYY'' then
        (case take_number 4 input of
           None \<Rightarrow> None
         | Some (n, rest) \<Rightarrow> parse_tokens (drop 3 xs) rest (p\<lparr>a_year := n\<rparr>))
      else if take 2 (x # xs) = ''MM'' then
        (case take_number 2 input of
           None \<Rightarrow> None
         | Some (n, rest) \<Rightarrow> parse_tokens (drop 1 xs) rest (p\<lparr>a_month := n\<rparr>))
      else if take 2 (x # xs) = ''DD'' then
        (case take_number 2 input of
           None \<Rightarrow> None
         | Some (n, rest) \<Rightarrow> parse_tokens (drop 1 xs) rest (p\<lparr>a_date := n\<rparr>))
      else if take 2 (x # xs) = ''HH'' then
        (case take_number 2 input of
           None \<Rightarrow> None
         | Some (n, rest) \<Rightarrow> parse_tokens (drop 1 xs) rest (p\<lparr>a_hour := n\<rparr>))
      else if take 2 (x # xs) = ''mm'' then
        (case take_number 2 input of
           None \<Rightarrow> None
         | Some (n, rest) \<Rightarrow> parse_tokens (drop 1 xs) rest (p\<lparr>a_minute := n\<rparr>))
      else if take 2 (x # xs) = ''ss'' then
        (case take_number 2 input of
           None \<Rightarrow> None
         | Some (n, rest) \<Rightarrow> parse_tokens (drop 1 xs) rest (p\<lparr>a_second := n\<rparr>))
      else if x = CHR ''Z'' then
        (case take_offset input of
           None \<Rightarrow> None
         | Some (m, rest) \<Rightarrow> parse_tokens xs rest (p\<lparr>tzm := m\<rparr>))
      else
        (case input of
           [] \<Rightarrow> None
         | c # rest \<Rightarrow> if c = x then parse_tokens xs rest p else None))"

text \<open>The fields of a date and a time that exist: the day within the month's length, the
  time before 24:00:00.\<close>

definition leap_year :: "nat \<Rightarrow> bool" where
  "leap_year y = (if y mod 400 = 0 then True else if y mod 100 = 0 then False else y mod 4 = 0)"

definition days_in_month :: "nat \<Rightarrow> nat \<Rightarrow> nat" where
  "days_in_month y m =
     (if m = 2 then (if leap_year y then 29 else 28)
      else if m = 4 \<or> m = 6 \<or> m = 9 \<or> m = 11 then 30 else 31)"

definition in_range :: "parsed \<Rightarrow> bool" where
  "in_range p =
     (1 \<le> a_month p \<and> a_month p \<le> 12
      \<and> 1 \<le> a_date p \<and> a_date p \<le> days_in_month (a_year p) (a_month p)
      \<and> a_hour p < 24 \<and> a_minute p < 60 \<and> a_second p < 60)"

text \<open>The day number of a date, counted from 1970-01-01 (the inverse of the reading in
  \<open>utc_civil\<close>), and the instant of the parsed fields. With an offset in the input the
  library builds the date from the fields in UTC and takes the offset off: the input
  names a local time that is \<open>tzm\<close> minutes ahead of UTC.\<close>

definition days_from_civil :: "int \<Rightarrow> int \<Rightarrow> int \<Rightarrow> int" where
  "days_from_civil y m d =
     (let y' = (if m \<le> 2 then y - 1 else y);
          era = y' div 400;
          yoe = y' mod 400;
          mp = (if 2 < m then m - 3 else m + 9);
          doy = (153 * mp + 2) div 5 + d - 1;
          doe = yoe * 365 + yoe div 4 - yoe div 100 + doy
      in era * 146097 + doe - 719468)"

definition instant_of :: "parsed \<Rightarrow> instant" where
  "instant_of p =
     (days_from_civil (int (a_year p)) (int (a_month p)) (int (a_date p)) * 86400
      + int (a_hour p) * 3600 + int (a_minute p) * 60 + int (a_second p)) * 1000
     - tzm p * 60000"

text \<open>Modelled from the spec: \<^verbatim>\<open>moment(s, fmt)\<close>. An input of the exact shape of the
  format, with fields that exist, is the instant it denotes. The library is lenient
  with other inputs (and the specification leaves the result for them open): what it
  holds then is the host's \<open>parse_input\<close>.\<close>

definition moment_parse :: "host \<Rightarrow> string \<Rightarrow> string \<Rightarrow> instant option" where
  "moment_parse h s fmt =
     (case parse_tokens fmt s nothing_parsed of
        None \<Rightarrow> parse_input h s
      | Some p \<Rightarrow> if in_range p then Some (instant_of p) else parse_input h s)"

subsection \<open>Configuration\<close>

definition DEFAULT_EVENT_NAME :: string where
  "DEFAULT_EVENT_NAME = ''New Event''"

definition DEFAULT_FILE_NAME :: string where
  "DEFAULT_FILE_NAME = ''calendar-event.ics''"

definition DEFAULT_ATTENDEE_RSVP :: bool where
  "DEFAULT_ATTENDEE_RSVP = False"

definition inputTimeFormat :: string where
  "inputTimeFormat = ''YYYY-MM-DDTHH:mm:ssZ''"

definition icalTimeFormat :: string where
  "icalTimeFormat = ''YYYYMMDDTHHmmss''"

subsection \<open>Validation (the same in the three revisions)\<close>

text \<open>\<^verbatim>\<open>validateDateStamp\<close>: a truthy \<open>stamp\<close> is parsed under \<^verbatim>\<open>inputTimeFormat\<close> (moment
  converts its input to a string first) and formatted; otherwise the clock is read and \<open>hoursToAddIfEmpty\<close> hours
  are added. \<open>None\<close> stands for an argument the caller leaves out.\<close>

definition validateDateStamp :: "host \<Rightarrow> string js \<Rightarrow> int option \<Rightarrow> string" where
  "validateDateStamp h stamp hoursToAddIfEmpty =
     (if truthy stamp
      then moment_format h (moment_parse h (toStr stamp) inputTimeFormat) icalTimeFormat
      else moment_format h (moment_add_hours (Some (clock h)) hoursToAddIfEmpty) icalTimeFormat)"

definition validateDateStart :: "host \<Rightarrow> string js \<Rightarrow> string" where
  "validateDateStart h stamp = validateDateStamp h stamp (Some 0)"

definition validateDateEnd :: "host \<Rightarrow> string js \<Rightarrow> string" where
  "validateDateEnd h stamp = validateDateStamp h stamp (Some 1)"

text \<open>Reading a property: of an object, the field; of a boolean, \<^verbatim>\<open>undefined\<close>; of
  \<^verbatim>\<open>undefined\<close> or \<^verbatim>\<open>null\<close>, a \<^verbatim>\<open>TypeError\<close>.\<close>

fun get_prop :: "('o \<Rightarrow> 'v js) \<Rightarrow> 'o js \<Rightarrow> error + 'v js" where
  "get_prop f (Val obj) = Inr (f obj)"
| "get_prop f (JBool b) = Inr Undefined"
| "get_prop f Undefined = Inl TypeError"
| "get_prop f Null = Inl TypeError"

text \<open>\<^verbatim>\<open>isValidPerson\<close>: \<^verbatim>\<open>person && person.email && person.name\<close>, read as a condition.
  The conjunction stops at a falsy \<open>person\<close>, so no property of \<^verbatim>\<open>undefined\<close> is read; the
  properties of \<^verbatim>\<open>true\<close> are \<^verbatim>\<open>undefined\<close>.\<close>

fun isValidPerson :: "person js \<Rightarrow> bool" where
  "isValidPerson (Val p) = (truthy (email p) \<and> truthy (name p))"
| "isValidPerson (JBool b) = False"
| "isValidPerson Undefined = False"
| "isValidPerson Null = False"

definition validateOrganizer :: "person js \<Rightarrow> person js" where
  "validateOrganizer org = (if isValidPerson org then org else JBool False)"

text \<open>The callback that \<^verbatim>\<open>validateAttendees\<close> maps over the entries the filter kept.\<close>

definition validatedAttendee :: "person js \<Rightarrow> error + person js" where
  "validatedAttendee attendee =
     (case get_prop email attendee of
        Inl e \<Rightarrow> Inl e
      | Inr em \<Rightarrow>
          (case get_prop name attendee of
             Inl e \<Rightarrow> Inl e
           | Inr nm \<Rightarrow>
               (case get_prop rsvp attendee of
                  Inl e \<Rightarrow> Inl e
                | Inr r \<Rightarrow>
                    Inr (Val \<lparr>email = em, name = nm,
                              rsvp = (if truthy r then r else JBool DEFAULT_ATTENDEE_RSVP)\<rparr>))))"

definition validateAttendees :: "person js list js \<Rightarrow> error + person js list" where
  "validateAttendees as = map_err validatedAttendee (filter isValidPerson (collection as))"

definition validateEventOptions :: "host \<Rightarrow> event_options \<Rightarrow> error + event_options" where
  "validateEventOptions h eventOptions =
     (case validateAttendees (attendees eventOptions) of
        Inl e \<Rightarrow> Inl e
      | Inr as \<Rightarrow>
          Inr \<lparr>dtstamp = Val (validateDateStamp h (dtstamp eventOptions) None),
               organizer = validateOrganizer (organizer eventOptions),
               dtstart = Val (validateDateStart h (dtstart eventOptions)),
               dtend = Val (validateDateEnd h (dtend eventOptions)),
               summary = js_or (eventName eventOptions) (Val DEFAULT_EVENT_NAME),
               description = js_or (description eventOptions) (Val []),
               location = js_or (location eventOptions) (JBool False),
               attendees = Val as,
               eventName = Undefined\<rparr>)"

subsection \<open>\<^verbatim>\<open>validateFilePath\<close>, revision by revision\<close>

text \<open>\<open>v1\<close> (\<^verbatim>\<open>src/index.js\<close>, lines 100 to 111). The first value of \<^verbatim>\<open>validFileName\<close>, the one
  that falls back to the default name, is overwritten by the next statement, which reads
  \<^verbatim>\<open>fileName\<close> again.\<close>

definition validateFilePath_v1 :: "host \<Rightarrow> string js \<Rightarrow> string js \<Rightarrow> error + string js" where
  "validateFilePath_v1 h fileName path =
     (if truthy path then Inr path
      else
        let validFileName = (if truthy fileName then fileName else Val DEFAULT_FILE_NAME);
            validFileName = (if endsWith fileName ''.ics'' then fileName
                             else Val (toStr fileName @ ''.ics''))
        in (case path_join h (Val (TMPDIR h)) validFileName of
              Inl e \<Rightarrow> Inl e
            | Inr p \<Rightarrow> Inr (Val p)))"

text \<open>\<open>v2\<close> (\<^verbatim>\<open>src/unnamed/part_000\<close>, lines 62 to 72). The default name is used in the test
  only; both branches read \<^verbatim>\<open>fileName\<close>.\<close>

definition validateFilePath_v2 :: "host \<Rightarrow> string js \<Rightarrow> string js \<Rightarrow> error + string js" where
  "validateFilePath_v2 h fileName path =
     (if truthy path then Inr path
      else
        let validFileName = (if endsWith (js_or fileName (Val DEFAULT_FILE_NAME)) ''.ics''
                             then fileName
                             else Val (toStr fileName @ ''.ics''))
        in (case path_join h (Val (TMPDIR h)) validFileName of
              Inl e \<Rightarrow> Inl e
            | Inr p \<Rightarrow> Inr (Val p)))"

text \<open>\<open>v3\<close> (\<^verbatim>\<open>src/index.js\<close>, lines 272 to 283).\<close>

definition validateFilePath_v3 :: "host \<Rightarrow> string js \<Rightarrow> string js \<Rightarrow> error + string js" where
  "validateFilePath_v3 h fileName path =
     (if truthy path then Inr path
      else if \<not> truthy fileName then
        (case path_join h (Val (TMPDIR h)) (Val DEFAULT_FILE_NAME) of
           Inl e \<Rightarrow> Inl e
         | Inr p \<Rightarrow> Inr (Val p))
      else
        let validFileName = (if endsWith fileName ''.ics'' then fileName
                             else Val (toStr fileName @ ''.ics''))
        in (case path_join h (Val (TMPDIR h)) validFileName of
              Inl e \<Rightarrow> Inl e
            | Inr p \<Rightarrow> Inr (Val p)))"

subsection \<open>\<^verbatim>\<open>validateCalendarOptions\<close>\<close>

text \<open>The events of the validated options: the given list mapped through
  \<^verbatim>\<open>validateEventOptions\<close> when \<^verbatim>\<open>events\<close> is truthy (an empty array is), one default event
  otherwise.\<close>

definition validatedEvents :: "host \<Rightarrow> event_options list js \<Rightarrow> error + event_options list" where
  "validatedEvents h evs =
     (if truthy_obj evs then map_err (validateEventOptions h) (collection evs)
      else map_err (validateEventOptions h) [empty_event])"

text \<open>\<open>v1\<close> (\<^verbatim>\<open>src/index.js\<close>, lines 113 to 132) and \<open>v2\<close> (\<^verbatim>\<open>src/unnamed/part_000\<close>, lines 85
  to 96): the result has the two fields \<^verbatim>\<open>filePath\<close> and \<^verbatim>\<open>events\<close>.\<close>

definition validateCalendarOptions_v1 ::
  "host \<Rightarrow> calendar_options \<Rightarrow> string js \<Rightarrow> error + calendar_options" where
  "validateCalendarOptions_v1 h calendarOptions path =
     (if truthy (isValid calendarOptions) then Inr calendarOptions
      else
        (case validateFilePath_v1 h (filename calendarOptions) path of
           Inl e \<Rightarrow> Inl e
         | Inr fp \<Rightarrow>
             (case validatedEvents h (events calendarOptions) of
                Inl e \<Rightarrow> Inl e
              | Inr evs \<Rightarrow>
                  Inr \<lparr>isValid = Undefined, filename = Undefined, filePath = fp,
                       events = Val evs, timeZone = Undefined\<rparr>)))"

definition validateCalendarOptions_v2 ::
  "host \<Rightarrow> calendar_options \<Rightarrow> string js \<Rightarrow> error + calendar_options" where
  "validateCalendarOptions_v2 h calendarOptions path =
     (if truthy (isValid calendarOptions) then Inr calendarOptions
      else
        (case validateFilePath_v2 h (filename calendarOptions) path of
           Inl e \<Rightarrow> Inl e
         | Inr fp \<Rightarrow>
             (case validatedEvents h (events calendarOptions) of
                Inl e \<Rightarrow> Inl e
              | Inr evs \<Rightarrow>
                  Inr \<lparr>isValid = Undefined, filename = Undefined, filePath = fp,
                       events = Val evs, timeZone = Undefined\<rparr>)))"

text \<open>\<open>v3\<close> (\<^verbatim>\<open>src/index.js\<close>, lines 296 to 308): the result has a third field,
  \<^verbatim>\<open>timeZone: calendarOptions.timeZone || guessedTimezone\<close>.\<close>

definition validateCalendarOptions_v3 ::
  "host \<Rightarrow> calendar_options \<Rightarrow> string js \<Rightarrow> error + calendar_options" where
  "validateCalendarOptions_v3 h calendarOptions path =
     (if truthy (isValid calendarOptions) then Inr calendarOptions
      else
        (case validateFilePath_v3 h (filename calendarOptions) path of
           Inl e \<Rightarrow> Inl e
         | Inr fp \<Rightarrow>
             (case validatedEvents h (events calendarOptions) of
                Inl e \<Rightarrow> Inl e
              | Inr evs \<Rightarrow>
                  Inr \<lparr>isValid = Undefined, filename = Undefined, filePath = fp,
                       events = Val evs,
                       timeZone = js_or (timeZone calendarOptions) (Val (tz_guess h))\<rparr>)))"

subsection \<open>The formatters\<close>

text \<open>\<^verbatim>\<open>timeProperty\<close>. In \<open>v1\<close> and \<open>v2\<close> the zone is the module's variable \<^verbatim>\<open>timezone\<close>
  (\<^verbatim>\<open>src/index.js\<close>, lines 26 to 28; \<^verbatim>\<open>src/unnamed/part_000\<close>, line 22); in \<open>v3\<close> it is a third
  parameter (\<^verbatim>\<open>src/index.js\<close>, line 232).\<close>

definition timeProperty_v1 :: "host \<Rightarrow> string \<Rightarrow> string js \<Rightarrow> string" where
  "timeProperty_v1 h nm stamp = nm @ '';TZID='' @ tz_guess h @ '':'' @ toStr stamp"

definition timeProperty_v3 :: "string \<Rightarrow> string js \<Rightarrow> string js \<Rightarrow> string" where
  "timeProperty_v3 nm stamp timezone = nm @ '';TZID='' @ toStr timezone @ '':'' @ toStr stamp"

text \<open>The entries of \<^verbatim>\<open>ICAL_FORMATTERS\<close>.\<close>

definition ICAL_calendarHeader :: "host \<Rightarrow> string" where
  "ICAL_calendarHeader h = join [''BEGIN:VCALENDAR'', ''VERSION:2.0''] (SYSTEM_LINE_BREAK h)"

definition ICAL_calendarFooter :: string where
  "ICAL_calendarFooter = ''END:VCALENDAR''"

definition ICAL_eventHeader_v1 :: "host \<Rightarrow> string js \<Rightarrow> string" where
  "ICAL_eventHeader_v1 h stamp =
     join [[], ''BEGIN:VEVENT'', timeProperty_v1 h ''DTSTAMP'' stamp] (SYSTEM_LINE_BREAK h)"

definition ICAL_eventHeader_v3 :: "host \<Rightarrow> string js \<Rightarrow> string js \<Rightarrow> string" where
  "ICAL_eventHeader_v3 h stamp tz =
     join [[], ''BEGIN:VEVENT'', timeProperty_v3 ''DTSTAMP'' stamp tz] (SYSTEM_LINE_BREAK h)"

definition ICAL_eventFooter :: string where
  "ICAL_eventFooter = ''END:VEVENT''"

definition ICAL_organizer :: "person js \<Rightarrow> error + string" where
  "ICAL_organizer org =
     (case get_prop name org of
        Inl e \<Rightarrow> Inl e
      | Inr nm \<Rightarrow>
          (case get_prop email org of
             Inl e \<Rightarrow> Inl e
           | Inr em \<Rightarrow> Inr (''ORGANIZER;CN='' @ toStr nm @ '':MAILTO:'' @ toStr em)))"

definition ICAL_attendee :: "person js \<Rightarrow> error + string" where
  "ICAL_attendee attendee =
     (case get_prop name attendee of
        Inl e \<Rightarrow> Inl e
      | Inr nm \<Rightarrow>
          (case get_prop rsvp attendee of
             Inl e \<Rightarrow> Inl e
           | Inr r \<Rightarrow>
               (case get_prop email attendee of
                  Inl e \<Rightarrow> Inl e
                | Inr em \<Rightarrow>
                    Inr (''ATTENDEE;CN='' @ [CHR 0x22] @ toStr nm @ [CHR 0x22] @ '';RSVP='' @ toStr r
                         @ '':MAILTO:'' @ toStr em))))"

definition ICAL_dtstart_v1 :: "host \<Rightarrow> string js \<Rightarrow> string" where
  "ICAL_dtstart_v1 h stamp = timeProperty_v1 h ''DTSTART'' stamp"

definition ICAL_dtend_v1 :: "host \<Rightarrow> string js \<Rightarrow> string" where
  "ICAL_dtend_v1 h stamp = timeProperty_v1 h ''DTEND'' stamp"

definition ICAL_dtstart_v3 :: "string js \<Rightarrow> string js \<Rightarrow> string" where
  "ICAL_dtstart_v3 stamp tz = timeProperty_v3 ''DTSTART'' stamp tz"

definition ICAL_dtend_v3 :: "string js \<Rightarrow> string js \<Rightarrow> string" where
  "ICAL_dtend_v3 stamp tz = timeProperty_v3 ''DTEND'' stamp tz"

definition ICAL_location :: "string js \<Rightarrow> string" where
  "ICAL_location loc = ''LOCATION:'' @ toStr loc"

definition ICAL_description :: "string js \<Rightarrow> string" where
  "ICAL_description d = ''DESCRIPTION:'' @ toStr d"

definition ICAL_summary :: "string js \<Rightarrow> string" where
  "ICAL_summary s = ''SUMMARY:'' @ toStr s"

definition formatCalendar :: "host \<Rightarrow> string \<Rightarrow> string" where
  "formatCalendar h formattedEvents =
     join [ICAL_calendarHeader h, formattedEvents, ICAL_calendarFooter] (SYSTEM_LINE_BREAK h)"

text \<open>The parts \<^verbatim>\<open>formatEvent\<close> pushes for the organizer, the attendees and the location,
  each behind the truthiness test of the source.\<close>

definition organizerParts :: "person js \<Rightarrow> error + string list" where
  "organizerParts org = (if truthy_obj org then map_err ICAL_organizer [org] else Inr [])"

definition attendeeParts :: "person js list js \<Rightarrow> error + string list" where
  "attendeeParts as = (if truthy_obj as then map_err ICAL_attendee (collection as) else Inr [])"

definition locationParts :: "string js \<Rightarrow> string list" where
  "locationParts loc = (if truthy loc then [ICAL_location loc] else [])"

text \<open>\<^verbatim>\<open>formatEvent\<close> of \<open>v1\<close> (\<^verbatim>\<open>src/index.js\<close>, lines 153 to 181) and \<open>v2\<close>
  (\<^verbatim>\<open>src/unnamed/part_000\<close>, lines 103 to 128).\<close>

definition formatEvent_v1 :: "host \<Rightarrow> event_options \<Rightarrow> error + string" where
  "formatEvent_v1 h validatedOptions =
     (case organizerParts (organizer validatedOptions) of
        Inl e \<Rightarrow> Inl e
      | Inr orgs \<Rightarrow>
          (case attendeeParts (attendees validatedOptions) of
             Inl e \<Rightarrow> Inl e
           | Inr atts \<Rightarrow>
               Inr (join ([ICAL_eventHeader_v1 h (dtstamp validatedOptions)]
                          @ orgs @ atts
                          @ [ICAL_dtstart_v1 h (dtstart validatedOptions),
                             ICAL_dtend_v1 h (dtend validatedOptions)]
                          @ locationParts (location validatedOptions)
                          @ [ICAL_description (description validatedOptions),
                             ICAL_summary (summary validatedOptions),
                             ICAL_eventFooter])
                         (SYSTEM_LINE_BREAK h))))"

text \<open>\<^verbatim>\<open>formatEvent\<close> of \<open>v3\<close> (\<^verbatim>\<open>src/index.js\<close>, lines 315 to 342): the second parameter is
  the validated calendar options, of which \<^verbatim>\<open>timeZone\<close> is read.\<close>

definition formatEvent_v3 :: "host \<Rightarrow> event_options \<Rightarrow> calendar_options \<Rightarrow> error + string" where
  "formatEvent_v3 h event opts =
     (case organizerParts (organizer event) of
        Inl e \<Rightarrow> Inl e
      | Inr orgs \<Rightarrow>
          (case attendeeParts (attendees event) of
             Inl e \<Rightarrow> Inl e
           | Inr atts \<Rightarrow>
               Inr (join ([ICAL_eventHeader_v3 h (dtstamp event) (timeZone opts)]
                          @ orgs @ atts
                          @ [ICAL_dtstart_v3 (dtstart event) (timeZone opts),
                             ICAL_dtend_v3 (dtend event) (timeZone opts)]
                          @ locationParts (location event)
                          @ [ICAL_description (description event),
                             ICAL_summary (summary event),
                             ICAL_eventFooter])
                         (SYSTEM_LINE_BREAK h))))"

subsection \<open>The two entry points\<close>

text \<open>\<^verbatim>\<open>getCalendar\<close>. Its first statement, \<^verbatim>\<open>_.omit(calendarOptions, 'isValid')\<close>, builds a
  copy that is dropped and leaves \<^verbatim>\<open>calendarOptions\<close> as it was. The validator is called
  without a path.\<close>

definition getCalendar_v1 :: "host \<Rightarrow> calendar_options \<Rightarrow> error + string" where
  "getCalendar_v1 h calendarOptions =
     (case validateCalendarOptions_v1 h calendarOptions Undefined of
        Inl e \<Rightarrow> Inl e
      | Inr validatedCalendarOptions \<Rightarrow>
          (case map_err (formatEvent_v1 h) (collection (events validatedCalendarOptions)) of
             Inl e \<Rightarrow> Inl e
           | Inr blocks \<Rightarrow> Inr (formatCalendar h (join blocks (SYSTEM_LINE_BREAK h)))))"

definition getCalendar_v2 :: "host \<Rightarrow> calendar_options \<Rightarrow> error + string" where
  "getCalendar_v2 h calendarOptions =
     (case validateCalendarOptions_v2 h calendarOptions Undefined of
        Inl e \<Rightarrow> Inl e
      | Inr validatedCalendarOptions \<Rightarrow>
          (case map_err (formatEvent_v1 h) (collection (events validatedCalendarOptions)) of
             Inl e \<Rightarrow> Inl e
           | Inr blocks \<Rightarrow> Inr (formatCalendar h (join blocks (SYSTEM_LINE_BREAK h)))))"

definition getCalendar_v3 :: "host \<Rightarrow> calendar_options \<Rightarrow> error + string" where
  "getCalendar_v3 h calendarOptions =
     (case validateCalendarOptions_v3 h calendarOptions Undefined of
        Inl e \<Rightarrow> Inl e
      | Inr validatedCalendarOptions \<Rightarrow>
          (case map_err (\<lambda>event. formatEvent_v3 h event validatedCalendarOptions)
                  (collection (events validatedCalendarOptions)) of
             Inl e \<Rightarrow> Inl e
           | Inr blocks \<Rightarrow> Inr (formatCalendar h (join blocks (SYSTEM_LINE_BREAK h)))))"

text \<open>\<^verbatim>\<open>toFile\<close>: the callback given to \<^verbatim>\<open>fs.writeFile\<close> has the two parameters \<^verbatim>\<open>err\<close> and
  \<^verbatim>\<open>destination\<close>, and passes \<^verbatim>\<open>destination\<close> on when \<^verbatim>\<open>err\<close> is falsy.\<close>

definition toFile ::
  "host \<Rightarrow> string \<Rightarrow> string js \<Rightarrow> (error js \<Rightarrow> string js \<Rightarrow> 'r) \<Rightarrow> error + 'r" where
  "toFile h data path callback =
     fs_writeFile h path data
       (\<lambda>err destination. if truthy_obj err then callback err Undefined
                           else callback Null destination)"

text \<open>\<^verbatim>\<open>createCalendar\<close>: validates with the path, then hands the validated options to
  \<^verbatim>\<open>getCalendar\<close> (which validates again) and the text to \<^verbatim>\<open>toFile\<close>.\<close>

definition createCalendar_v1 ::
  "host \<Rightarrow> calendar_options \<Rightarrow> string js \<Rightarrow> (error js \<Rightarrow> string js \<Rightarrow> 'r) \<Rightarrow> error + 'r" where
  "createCalendar_v1 h calendarOptions path callback =
     (case validateCalendarOptions_v1 h calendarOptions path of
        Inl e \<Rightarrow> Inl e
      | Inr validatedCalendarOptions \<Rightarrow>
          (case getCalendar_v1 h validatedCalendarOptions of
             Inl e \<Rightarrow> Inl e
           | Inr data \<Rightarrow> toFile h data (filePath validatedCalendarOptions) callback))"

definition createCalendar_v2 ::
  "host \<Rightarrow> calendar_options \<Rightarrow> string js \<Rightarrow> (error js \<Rightarrow> string js \<Rightarrow> 'r) \<Rightarrow> error + 'r" where
  "createCalendar_v2 h calendarOptions path callback =
     (case validateCalendarOptions_v2 h calendarOptions path of
        Inl e \<Rightarrow> Inl e
      | Inr validatedCalendarOptions \<Rightarrow>
          (case getCalendar_v2 h validatedCalendarOptions of
             Inl e \<Rightarrow> Inl e
           | Inr data \<Rightarrow> toFile h data (filePath validatedCalendarOptions) callback))"

definition createCalendar_v3 ::
  "host \<Rightarrow> calendar_options \<Rightarrow> string js \<Rightarrow> (error js \<Rightarrow> string js \<Rightarrow> 'r) \<Rightarrow> error + 'r" where
  "createCalendar_v3 h calendarOptions path callback =
     (case validateCalendarOptions_v3 h calendarOptions path of
        Inl e \<Rightarrow> Inl e
      | Inr validatedCalendarOptions \<Rightarrow>
          (case getCalendar_v3 h validatedCalendarOptions of
             Inl e \<Rightarrow> Inl e
           | Inr data \<Rightarrow> toFile h data (filePath validatedCalendarOptions) callback))"

text \<open>A callback that records the arguments of each call; the result of
  \<^verbatim>\<open>createCalendar\<close> with it is the list of the calls made.\<close>

definition recording :: "error js \<Rightarrow> string js \<Rightarrow> (error js \<times> string js) list" where
  "recording err path = [(err, path)]"

subsection \<open>The shapes the specification names\<close>

text \<open>A raw field of string type: a string, or absent (\<^verbatim>\<open>undefined\<close>, \<^verbatim>\<open>null\<close>, or the
  marker \<^verbatim>\<open>false\<close> that the validators themselves store). A raw \<^verbatim>\<open>rsvp\<close>: a boolean, or
  absent.\<close>

fun opt_string :: "string js \<Rightarrow> bool" where
  "opt_string (JBool b) = (\<not> b)"
| "opt_string v = True"

fun opt_bool :: "string js \<Rightarrow> bool" where
  "opt_bool (Val s) = False"
| "opt_bool v = True"

fun is_string :: "string js \<Rightarrow> bool" where
  "is_string (Val s) = True"
| "is_string v = False"

fun nonempty_string :: "string js \<Rightarrow> bool" where
  "nonempty_string (Val s) = (s \<noteq> [])"
| "nonempty_string v = False"

definition raw_person :: "person \<Rightarrow> bool" where
  "raw_person p = (opt_string (name p) \<and> opt_string (email p) \<and> opt_bool (rsvp p))"

text \<open>An entry of a raw attendee list: a person object, or anything that is not an
  object.\<close>

fun raw_entry :: "person js \<Rightarrow> bool" where
  "raw_entry (Val p) = raw_person p"
| "raw_entry v = True"

definition raw_event :: "event_options \<Rightarrow> bool" where
  "raw_event ev =
     (opt_string (eventName ev) \<and> opt_string (description ev) \<and> opt_string (location ev)
      \<and> raw_entry (organizer ev) \<and> list_all raw_entry (collection (attendees ev)))"

text \<open>The person-validity check in the specification's words: name and email are both
  non-empty.\<close>

definition has_name_and_email :: "person \<Rightarrow> bool" where
  "has_name_and_email p = (nonempty_string (name p) \<and> nonempty_string (email p))"

fun entry_has_name_and_email :: "person js \<Rightarrow> bool" where
  "entry_has_name_and_email (Val p) = has_name_and_email p"
| "entry_has_name_and_email v = False"

text \<open>The copy the specification asks of \<^verbatim>\<open>validateAttendees\<close>: name and email copied,
  \<^verbatim>\<open>rsvp\<close> the supplied boolean, or \<^verbatim>\<open>false\<close> when absent.\<close>

fun rsvp_or_false :: "string js \<Rightarrow> string js" where
  "rsvp_or_false (JBool b) = JBool b"
| "rsvp_or_false v = JBool False"

fun copied_entry :: "person js \<Rightarrow> person js" where
  "copied_entry (Val p) = Val \<lparr>email = email p, name = name p, rsvp = rsvp_or_false (rsvp p)\<rparr>"
| "copied_entry v = v"

text \<open>The canonical forms: an attendee, an organizer or location (present, or the marker
  \<^verbatim>\<open>false\<close>), an event with its eight fields, and options marked as validated.\<close>

fun canonical_attendee :: "person js \<Rightarrow> bool" where
  "canonical_attendee (Val p) =
     (has_name_and_email p \<and> (case rsvp p of JBool b \<Rightarrow> True | _ \<Rightarrow> False))"
| "canonical_attendee v = False"

fun canonical_organizer :: "person js \<Rightarrow> bool" where
  "canonical_organizer (Val p) = has_name_and_email p"
| "canonical_organizer (JBool b) = (\<not> b)"
| "canonical_organizer v = False"

fun canonical_location :: "string js \<Rightarrow> bool" where
  "canonical_location (Val s) = (s \<noteq> [])"
| "canonical_location (JBool b) = (\<not> b)"
| "canonical_location v = False"

fun canonical_attendees :: "person js list js \<Rightarrow> bool" where
  "canonical_attendees (Val as) = list_all canonical_attendee as"
| "canonical_attendees v = False"

definition canonical_event :: "event_options \<Rightarrow> bool" where
  "canonical_event ev =
     (is_string (dtstamp ev) \<and> is_string (dtstart ev) \<and> is_string (dtend ev)
      \<and> is_string (summary ev) \<and> is_string (description ev)
      \<and> canonical_location (location ev) \<and> canonical_organizer (organizer ev)
      \<and> canonical_attendees (attendees ev))"

fun canonical_events :: "event_options list js \<Rightarrow> bool" where
  "canonical_events (Val evs) = list_all canonical_event evs"
| "canonical_events v = False"

definition prevalidated :: "calendar_options \<Rightarrow> bool" where
  "prevalidated co = (truthy (isValid co) \<and> canonical_events (events co))"

text \<open>The lines of an event block as section 4.2 of the specification lists them, for a
  zone identifier \<open>tz\<close>.\<close>

fun organizer_lines :: "person js \<Rightarrow> string list" where
  "organizer_lines (Val p) = [''ORGANIZER;CN='' @ toStr (name p) @ '':MAILTO:'' @ toStr (email p)]"
| "organizer_lines v = []"

fun attendee_line :: "person js \<Rightarrow> string" where
  "attendee_line (Val p) =
     ''ATTENDEE;CN='' @ [CHR 0x22] @ toStr (name p) @ [CHR 0x22] @ '';RSVP='' @ toStr (rsvp p)
     @ '':MAILTO:'' @ toStr (email p)"
| "attendee_line v = []"

fun location_lines :: "string js \<Rightarrow> string list" where
  "location_lines (Val s) = [''LOCATION:'' @ s]"
| "location_lines v = []"

definition event_block_lines :: "string \<Rightarrow> event_options \<Rightarrow> string list" where
  "event_block_lines tz ev =
     [[], ''BEGIN:VEVENT'', ''DTSTAMP;TZID='' @ tz @ '':'' @ toStr (dtstamp ev)]
     @ organizer_lines (organizer ev)
     @ map attendee_line (collection (attendees ev))
     @ [''DTSTART;TZID='' @ tz @ '':'' @ toStr (dtstart ev),
        ''DTEND;TZID='' @ tz @ '':'' @ toStr (dtend ev)]
     @ location_lines (location ev)
     @ [''DESCRIPTION:'' @ toStr (description ev),
        ''SUMMARY:'' @ toStr (summary ev),
        ''END:VEVENT'']"

text \<open>The lines of the whole document for the given event blocks: the two header lines,
  the lines of the blocks in order, the footer line. \<^verbatim>\<open>formatCalendar\<close> joins the header,
  the joined blocks and the footer, so with no block at all the joined blocks are the
  empty string and stand as one empty line.\<close>

definition calendar_lines :: "string list list \<Rightarrow> string list" where
  "calendar_lines blocks =
     [''BEGIN:VCALENDAR'', ''VERSION:2.0'']
     @ (if blocks = [] then [[]] else concat blocks)
     @ [''END:VCALENDAR'']"

text \<open>The events \<^verbatim>\<open>validateCalendarOptions\<close> validates: the given ones when \<^verbatim>\<open>events\<close> is
  truthy, the empty object otherwise.\<close>

definition events_or_default :: "event_options list js \<Rightarrow> event_options list" where
  "events_or_default evs = (if truthy_obj evs then collection evs else [empty_event])"









subsection \<open>A concrete platform and concrete inputs\<close>

text \<open>A POSIX host in UTC whose clock reads 2023-11-14T22:13:20Z. It reads no input
  but the well-formed ones; it can write under \<^verbatim>\<open>/tmp/\<close> only.\<close>

definition sample_host :: host where
  "sample_host =
     \<lparr>TMPDIR = ''/tmp'',
      SYSTEM_LINE_BREAK = [CHR 0x0A],
      tz_guess = ''Etc/UTC'',
      clock = 1700000000000,
      utc_offset = (\<lambda>t. 0),
      parse_input = (\<lambda>s. None),
      join_paths = (\<lambda>a b. a @ ''/'' @ b),
      write_error = (\<lambda>path data. if take 5 path = ''/tmp/'' then None else Some ''EACCES'')\<rparr>"

text \<open>The same host an hour and a bit later.\<close>

definition later_host :: host where
  "later_host = sample_host\<lparr>clock := 1700003700000\<rparr>"

text \<open>The options \<^verbatim>\<open>{}\<close>, \<^verbatim>\<open>{ events: [] }\<close> and \<^verbatim>\<open>{ timeZone: 'Asia/Tokyo' }\<close>.\<close>

definition no_options :: calendar_options where
  "no_options =
     \<lparr>isValid = Undefined, filename = Undefined, filePath = Undefined, events = Undefined,
      timeZone = Undefined\<rparr>"


definition tokyo_options :: calendar_options where
  "tokyo_options = no_options\<lparr>timeZone := Val ''Asia/Tokyo''\<rparr>"

text \<open>Three raw attendees: one complete, one without an email, one that sets \<^verbatim>\<open>rsvp\<close>.\<close>

definition ann :: person where
  "ann = \<lparr>email = Val ''a@x.com'', name = Val ''A'', rsvp = Undefined\<rparr>"

definition bob :: person where
  "bob = \<lparr>email = Undefined, name = Val ''B'', rsvp = Undefined\<rparr>"

definition cyd :: person where
  "cyd = \<lparr>email = Val ''c@x.com'', name = Val ''C'', rsvp = JBool True\<rparr>"

text \<open>A raw event with a start, a name, an organizer and these attendees.\<close>

definition raw_meeting :: event_options where
  "raw_meeting =
     empty_event\<lparr>dtstart := Val ''2017-01-02T03:04:05+00:00'', eventName := Val ''Meeting'',
                 organizer := Val cyd, attendees := Val [Val ann, Val bob, Null, Val cyd]\<rparr>"



text \<open>A canonical event, and options marked as validated that hold it.\<close>

definition meeting :: event_options where
  "meeting =
     \<lparr>dtstamp = Val ''20170101T000000'',
      organizer = Val cyd,
      dtstart = Val ''20170102T030405'',
      dtend = Val ''20170102T040405'',
      summary = Val ''Meeting'',
      description = Val [],
      location = Val ''Room 1'',
      attendees = Val [Val (ann\<lparr>rsvp := JBool False\<rparr>), Val cyd],
      eventName = Undefined\<rparr>"

definition validated_options :: calendar_options where
  "validated_options =
     \<lparr>isValid = JBool True, filename = Undefined, filePath = Val ''/tmp/meeting.ics'',
      events = Val [meeting], timeZone = Val ''Europe/Paris''\<rparr>"

section \<open>Properties\<close>

subsection \<open>Joining lines, mapping a callback that can throw\<close>

lemma join_Cons: "ys \<noteq> [] \<Longrightarrow> join (x # ys) sep = x @ sep @ join ys sep"
  by (cases ys) simp_all

lemma join_append:
  "xs \<noteq> [] \<Longrightarrow> ys \<noteq> [] \<Longrightarrow> join (xs @ ys) sep = join xs sep @ sep @ join ys sep"
proof (induction xs sep rule: join.induct)
  case (1 sep)
  then show ?case by simp
next
  case (2 x sep)
  then show ?case by (simp add: join_Cons)
next
  case (3 x y ys' sep)
  then show ?case by simp
qed

text \<open>Joining a list one of whose elements is itself a joined, non-empty list gives the
  same text as joining the flat list.\<close>

lemma join_flatten:
  assumes "xs \<noteq> []"
  shows "join (pre @ join xs sep # post) sep = join (pre @ xs @ post) sep"
proof (cases "post = []")
  case True
  show ?thesis
  proof (cases "pre = []")
    case True
    with \<open>post = []\<close> show ?thesis by simp
  next
    case False
    with \<open>post = []\<close> assms show ?thesis by (simp add: join_append)
  qed
next
  case False
  note post = this
  show ?thesis
  proof (cases "pre = []")
    case True
    with post assms show ?thesis
      by (simp add: join_Cons join_append)
  next
    case False
    with post assms show ?thesis
      by (simp add: join_Cons join_append)
  qed
qed

lemma header_flatten:
  "join (join [a, b, c] sep # rest) sep = join ([a, b, c] @ rest) sep"
  using join_flatten [of "[a, b, c]" "[]" sep rest] by simp

lemma map_err_total:
  "(\<And>x. x \<in> set xs \<Longrightarrow> f x = Inr (g x)) \<Longrightarrow> map_err f xs = Inr (map g xs)"
  by (induction xs) simp_all

subsection \<open>Persons and attendees\<close>

lemma truthy_opt_string: "opt_string v \<Longrightarrow> truthy v = nonempty_string v"
  by (cases v) simp_all

lemma isValidPerson_raw: "raw_entry a \<Longrightarrow> isValidPerson a = entry_has_name_and_email a"
  by (cases a) (auto simp: raw_person_def has_name_and_email_def truthy_opt_string)

lemma isValidPerson_Val: "isValidPerson a \<Longrightarrow> \<exists>p. a = Val p"
  by (cases a) simp_all

lemma validatedAttendee_Val:
  "validatedAttendee (Val p) =
     Inr (Val \<lparr>email = email p, name = name p,
               rsvp = (if truthy (rsvp p) then rsvp p else JBool False)\<rparr>)"
  by (simp add: validatedAttendee_def DEFAULT_ATTENDEE_RSVP_def)

lemma rsvp_opt_bool:
  "opt_bool r \<Longrightarrow> (if truthy r then r else JBool False) = rsvp_or_false r"
  by (cases r) auto

lemma validatedAttendee_raw:
  "raw_entry a \<Longrightarrow> isValidPerson a \<Longrightarrow> validatedAttendee a = Inr (copied_entry a)"
  by (cases a) (simp_all add: validatedAttendee_Val raw_person_def rsvp_opt_bool)

lemma filter_raw:
  "list_all raw_entry xs \<Longrightarrow> filter isValidPerson xs = filter entry_has_name_and_email xs"
  by (induction xs) (simp_all add: isValidPerson_raw)

text \<open>The filter never lets through an entry whose properties cannot be read, so the
  mapped callback never throws.\<close>

lemma validateAttendees_total:
  "validateAttendees as =
     Inr (map (\<lambda>a. projr (validatedAttendee a)) (filter isValidPerson (collection as)))"
  unfolding validateAttendees_def
  by (rule map_err_total) (auto dest!: isValidPerson_Val simp: validatedAttendee_Val)

lemma kept_entries_copied:
  assumes "list_all raw_entry xs"
  shows "map_err validatedAttendee (filter entry_has_name_and_email xs) =
           Inr (map copied_entry (filter entry_has_name_and_email xs))"
proof (rule map_err_total)
  fix a
  assume a: "a \<in> set (filter entry_has_name_and_email xs)"
  with assms have r: "raw_entry a" by (auto simp: list_all_iff)
  from a have "entry_has_name_and_email a" by simp
  with r have "isValidPerson a" by (simp add: isValidPerson_raw)
  with r show "validatedAttendee a = Inr (copied_entry a)" by (rule validatedAttendee_raw)
qed

text \<open>
  Claim C6. For every raw attendee list (also a missing one), \<^verbatim>\<open>validateAttendees\<close>
  returns exactly the entries whose name and email are both non-empty, in their original
  order and with duplicates kept, each copied to a record of name, email and \<^verbatim>\<open>rsvp\<close>,
  where \<^verbatim>\<open>rsvp\<close> is the supplied boolean, or \<^verbatim>\<open>false\<close> when it is absent. The entries of a
  raw list are person objects whose name and email are strings or absent and whose
  \<^verbatim>\<open>rsvp\<close> is a boolean or absent, or they are not objects at all.
\<close>

theorem validateAttendees_filters_and_copies:
  assumes "list_all raw_entry (collection as)"
  shows "validateAttendees as =
           Inr (map copied_entry (filter entry_has_name_and_email (collection as)))"
proof -
  have "validateAttendees as =
          map_err validatedAttendee (filter entry_has_name_and_email (collection as))"
    using assms by (simp add: validateAttendees_def filter_raw)
  also have "\<dots> = Inr (map copied_entry (filter entry_has_name_and_email (collection as)))"
    using assms by (rule kept_entries_copied)
  finally show ?thesis .
qed

theorem validateAttendees_filters_and_copies_witness:
  "list_all raw_entry (collection (Val [Val ann, Val bob, Null, Val cyd, Val ann]))
   \<and> validateAttendees (Val [Val ann, Val bob, Null, Val cyd, Val ann]) =
       Inr [Val \<lparr>email = Val ''a@x.com'', name = Val ''A'', rsvp = JBool False\<rparr>,
            Val \<lparr>email = Val ''c@x.com'', name = Val ''C'', rsvp = JBool True\<rparr>,
            Val \<lparr>email = Val ''a@x.com'', name = Val ''A'', rsvp = JBool False\<rparr>]"
proof -
  have h: "list_all raw_entry (collection (Val [Val ann, Val bob, Null, Val cyd, Val ann]))"
    by (simp add: raw_person_def ann_def bob_def cyd_def)
  from validateAttendees_filters_and_copies [OF h] h show ?thesis
    by (simp add: has_name_and_email_def ann_def bob_def cyd_def)
qed

subsection \<open>Events\<close>

text \<open>\<^verbatim>\<open>validateEventOptions\<close> never throws, and its result is the object literal of the
  source.\<close>

lemma validateEventOptions_total:
  "validateEventOptions h ev =
     Inr \<lparr>dtstamp = Val (validateDateStamp h (dtstamp ev) None),
          organizer = validateOrganizer (organizer ev),
          dtstart = Val (validateDateStart h (dtstart ev)),
          dtend = Val (validateDateEnd h (dtend ev)),
          summary = js_or (eventName ev) (Val DEFAULT_EVENT_NAME),
          description = js_or (description ev) (Val []),
          location = js_or (location ev) (JBool False),
          attendees = Val (map (\<lambda>a. projr (validatedAttendee a))
                            (filter isValidPerson (collection (attendees ev)))),
          eventName = Undefined\<rparr>"
  by (simp add: validateEventOptions_def validateAttendees_total)

lemma validateEventOptions_Inr:
  "validateEventOptions h ev = Inr (projr (validateEventOptions h ev))"
  by (simp add: validateEventOptions_total)

lemma kept_attendees_raw:
  assumes "list_all raw_entry xs"
  shows "map (\<lambda>a. projr (validatedAttendee a)) (filter isValidPerson xs) =
           map copied_entry (filter entry_has_name_and_email xs)"
proof -
  have "map_err validatedAttendee (filter isValidPerson xs) =
          Inr (map (\<lambda>a. projr (validatedAttendee a)) (filter isValidPerson xs))"
    using validateAttendees_total [of "Val xs"] by (simp add: validateAttendees_def)
  moreover have "map_err validatedAttendee (filter isValidPerson xs) =
          Inr (map copied_entry (filter entry_has_name_and_email xs))"
    using assms by (simp add: filter_raw kept_entries_copied)
  ultimately show ?thesis by simp
qed

lemma rsvp_or_false_bool: "(case rsvp_or_false r of JBool b \<Rightarrow> True | _ \<Rightarrow> False)"
  by (cases r) simp_all

lemma canonical_copied:
  "entry_has_name_and_email a \<Longrightarrow> canonical_attendee (copied_entry a)"
  by (cases a) (simp_all add: has_name_and_email_def rsvp_or_false_bool)

lemma validateOrganizer_canonical:
  "raw_entry org \<Longrightarrow> canonical_organizer (validateOrganizer org)"
  by (cases org)
     (auto simp: validateOrganizer_def raw_person_def has_name_and_email_def truthy_opt_string)

lemma js_or_string: "opt_string v \<Longrightarrow> is_string (js_or v (Val d))"
  by (cases v) (simp_all add: js_or_def)

lemma js_or_location: "opt_string v \<Longrightarrow> canonical_location (js_or v (JBool False))"
  by (cases v) (simp_all add: js_or_def)

lemma validated_raw_event:
  assumes "raw_event ev"
  shows "validateEventOptions h ev =
     Inr \<lparr>dtstamp = Val (validateDateStamp h (dtstamp ev) None),
          organizer = validateOrganizer (organizer ev),
          dtstart = Val (validateDateStart h (dtstart ev)),
          dtend = Val (validateDateEnd h (dtend ev)),
          summary = js_or (eventName ev) (Val DEFAULT_EVENT_NAME),
          description = js_or (description ev) (Val []),
          location = js_or (location ev) (JBool False),
          attendees = Val (map copied_entry
                            (filter entry_has_name_and_email (collection (attendees ev)))),
          eventName = Undefined\<rparr>"
  using assms by (simp add: validateEventOptions_total raw_event_def kept_attendees_raw)

lemma canonical_validated:
  assumes "raw_event ev"
  shows "canonical_event (projr (validateEventOptions h ev))"
proof -
  have "list_all canonical_attendee
          (map copied_entry (filter entry_has_name_and_email (collection (attendees ev))))"
    by (simp add: list_all_iff canonical_copied)
  with assms show ?thesis
    by (simp add: validated_raw_event canonical_event_def raw_event_def js_or_string
        js_or_location validateOrganizer_canonical)
qed

subsection \<open>Formatting a canonical event\<close>

lemma organizerParts_canonical:
  "canonical_organizer org \<Longrightarrow> organizerParts org = Inr (organizer_lines org)"
  by (cases org) (simp_all add: organizerParts_def ICAL_organizer_def)

lemma ICAL_attendee_canonical:
  "canonical_attendee a \<Longrightarrow> ICAL_attendee a = Inr (attendee_line a)"
  by (cases a) (simp_all add: ICAL_attendee_def)

lemma attendeeParts_canonical:
  assumes "canonical_attendees as"
  shows "attendeeParts as = Inr (map attendee_line (collection as))"
proof (cases as)
  case (Val xs)
  with assms have "\<And>a. a \<in> set xs \<Longrightarrow> ICAL_attendee a = Inr (attendee_line a)"
    by (simp add: list_all_iff ICAL_attendee_canonical)
  then have "map_err ICAL_attendee xs = Inr (map attendee_line xs)"
    by (rule map_err_total)
  with Val show ?thesis by (simp add: attendeeParts_def)
qed (use assms in simp_all)

lemma locationParts_canonical:
  "canonical_location loc \<Longrightarrow> locationParts loc = location_lines loc"
  by (cases loc) (simp_all add: locationParts_def ICAL_location_def)

lemma formatEvent_v1_canonical:
  assumes "canonical_event ev"
  shows "formatEvent_v1 h ev =
           Inr (join (event_block_lines (tz_guess h) ev) (SYSTEM_LINE_BREAK h))"
proof -
  from assms have o: "organizerParts (organizer ev) = Inr (organizer_lines (organizer ev))"
    and a: "attendeeParts (attendees ev) = Inr (map attendee_line (collection (attendees ev)))"
    and l: "locationParts (location ev) = location_lines (location ev)"
    by (simp_all add: canonical_event_def organizerParts_canonical attendeeParts_canonical
        locationParts_canonical)
  show ?thesis
    unfolding formatEvent_v1_def o a l ICAL_eventHeader_v1_def
    by (simp only: sum.case append_Cons append_Nil header_flatten)
       (simp add: event_block_lines_def timeProperty_v1_def ICAL_dtstart_v1_def
         ICAL_dtend_v1_def ICAL_description_def ICAL_summary_def ICAL_eventFooter_def)
qed

lemma formatEvent_v3_canonical:
  assumes "canonical_event ev"
  shows "formatEvent_v3 h ev opts =
           Inr (join (event_block_lines (toStr (timeZone opts)) ev) (SYSTEM_LINE_BREAK h))"
proof -
  from assms have o: "organizerParts (organizer ev) = Inr (organizer_lines (organizer ev))"
    and a: "attendeeParts (attendees ev) = Inr (map attendee_line (collection (attendees ev)))"
    and l: "locationParts (location ev) = location_lines (location ev)"
    by (simp_all add: canonical_event_def organizerParts_canonical attendeeParts_canonical
        locationParts_canonical)
  show ?thesis
    unfolding formatEvent_v3_def o a l ICAL_eventHeader_v3_def
    by (simp only: sum.case append_Cons append_Nil header_flatten)
       (simp add: event_block_lines_def timeProperty_v3_def ICAL_dtstart_v3_def
         ICAL_dtend_v3_def ICAL_description_def ICAL_summary_def ICAL_eventFooter_def)
qed

text \<open>
  Claim C10. For every raw event options object, \<^verbatim>\<open>validateEventOptions\<close> returns (it does
  not throw) an object with the eight canonical fields defined: the three timestamps,
  the summary and the description are strings; the location is the supplied string or
  the marker \<^verbatim>\<open>false\<close>; the organizer is the supplied person when it has a name and an
  email, and the marker \<^verbatim>\<open>false\<close> otherwise; the attendees are a list (the empty one when
  the raw field is absent) of person objects with name, email and a boolean \<^verbatim>\<open>rsvp\<close>. The
  formatter of either revision then returns a text for it: it reads no missing field.
  The raw fields of string type are strings or absent, the raw persons as in claim C6.
\<close>

theorem validateEventOptions_fields_defined:
  assumes "raw_event ev"
  shows "\<exists>v. validateEventOptions h ev = Inr v \<and> canonical_event v
           \<and> location v = (if truthy (location ev) then location ev else JBool False)
           \<and> organizer v = (if isValidPerson (organizer ev) then organizer ev else JBool False)
           \<and> attendees v = Val (map copied_entry
                                 (filter entry_has_name_and_email (collection (attendees ev))))
           \<and> (\<exists>text. formatEvent_v1 h v = Inr text)
           \<and> (\<exists>text. formatEvent_v3 h v opts = Inr text)"
proof -
  let ?v = "projr (validateEventOptions h ev)"
  have v: "validateEventOptions h ev = Inr ?v"
    by (rule validateEventOptions_Inr)
  from assms have c: "canonical_event ?v"
    by (rule canonical_validated)
  from assms have fields:
    "location ?v = (if truthy (location ev) then location ev else JBool False)"
    "organizer ?v = (if isValidPerson (organizer ev) then organizer ev else JBool False)"
    "attendees ?v = Val (map copied_entry
                          (filter entry_has_name_and_email (collection (attendees ev))))"
    by (simp_all add: validated_raw_event js_or_def validateOrganizer_def)
  from c have "\<exists>text. formatEvent_v1 h ?v = Inr text" "\<exists>text. formatEvent_v3 h ?v opts = Inr text"
    by (simp_all add: formatEvent_v1_canonical formatEvent_v3_canonical)
  with v c fields show ?thesis by blast
qed

theorem validateEventOptions_fields_defined_witness:
  "raw_event empty_event \<and> raw_event raw_meeting
   \<and> (\<exists>v. validateEventOptions sample_host empty_event = Inr v \<and> canonical_event v
          \<and> location v = JBool False \<and> organizer v = JBool False \<and> attendees v = Val []
          \<and> (\<exists>text. formatEvent_v1 sample_host v = Inr text)
          \<and> (\<exists>text. formatEvent_v3 sample_host v validated_options = Inr text))
   \<and> (\<exists>v. validateEventOptions sample_host raw_meeting = Inr v \<and> canonical_event v
          \<and> location v = JBool False \<and> organizer v = Val cyd
          \<and> attendees v = Val [Val (ann\<lparr>rsvp := JBool False\<rparr>), Val cyd]
          \<and> (\<exists>text. formatEvent_v1 sample_host v = Inr text)
          \<and> (\<exists>text. formatEvent_v3 sample_host v validated_options = Inr text))"
proof -
  have e: "raw_event empty_event"
    by (simp add: raw_event_def empty_event_def)
  have m: "raw_event raw_meeting"
    by (simp add: raw_event_def raw_meeting_def empty_event_def raw_person_def
        ann_def bob_def cyd_def)
  from validateEventOptions_fields_defined [OF e, of sample_host validated_options]
  have 1: "\<exists>v. validateEventOptions sample_host empty_event = Inr v \<and> canonical_event v
          \<and> location v = JBool False \<and> organizer v = JBool False \<and> attendees v = Val []
          \<and> (\<exists>text. formatEvent_v1 sample_host v = Inr text)
          \<and> (\<exists>text. formatEvent_v3 sample_host v validated_options = Inr text)"
    by (simp add: empty_event_def)
  from validateEventOptions_fields_defined [OF m, of sample_host validated_options]
  have 2: "\<exists>v. validateEventOptions sample_host raw_meeting = Inr v \<and> canonical_event v
          \<and> location v = JBool False \<and> organizer v = Val cyd
          \<and> attendees v = Val [Val (ann\<lparr>rsvp := JBool False\<rparr>), Val cyd]
          \<and> (\<exists>text. formatEvent_v1 sample_host v = Inr text)
          \<and> (\<exists>text. formatEvent_v3 sample_host v validated_options = Inr text)"
    by (simp add: raw_meeting_def empty_event_def has_name_and_email_def
        ann_def bob_def cyd_def)
  from e m 1 2 show ?thesis by blast
qed



subsection \<open>Timestamps\<close>





























subsection \<open>Options marked as validated\<close>

text \<open>
  Claim C8. For every calendar options object whose \<^verbatim>\<open>isValid\<close> marker is present and
  true, \<^verbatim>\<open>validateCalendarOptions\<close> returns that object unchanged, whatever the path
  argument: no file path is resolved, no default is applied and no event is validated.
\<close>

theorem validateCalendarOptions_marked_valid:
  assumes "truthy (isValid co)"
  shows "validateCalendarOptions_v1 h co path = Inr co
       \<and> validateCalendarOptions_v2 h co path = Inr co
       \<and> validateCalendarOptions_v3 h co path = Inr co"
  using assms
  by (simp add: validateCalendarOptions_v1_def validateCalendarOptions_v2_def
      validateCalendarOptions_v3_def)

theorem validateCalendarOptions_marked_valid_witness:
  "truthy (isValid validated_options)
   \<and> validateCalendarOptions_v1 sample_host validated_options (Val ''/tmp/other.ics'')
       = Inr validated_options
   \<and> validateCalendarOptions_v2 sample_host validated_options (Val ''/tmp/other.ics'')
       = Inr validated_options
   \<and> validateCalendarOptions_v3 sample_host validated_options (Val ''/tmp/other.ics'')
       = Inr validated_options"
proof -
  have h: "truthy (isValid validated_options)"
    by (simp add: validated_options_def)
  from validateCalendarOptions_marked_valid [OF h, of sample_host "Val ''/tmp/other.ics''"] h
  show ?thesis by simp
qed

subsection \<open>The file path\<close>

lemma endsWith_is_string: "endsWith f ''.ics'' \<Longrightarrow> \<exists>s. f = Val s"
  by (cases f) (auto simp: endsWith_def split: if_splits)

text \<open>What each revision returns. \<open>v1\<close> and \<open>v3\<close> never throw; \<open>v2\<close> throws exactly when it
  is given neither a path nor a file name.\<close>

lemma validateFilePath_v1_total:
  "validateFilePath_v1 h f path =
     Inr (if truthy path then path
          else Val (join_paths h (TMPDIR h)
                     (if endsWith f ''.ics'' then toStr f else toStr f @ ''.ics'')))"
  by (auto simp: validateFilePath_v1_def dest: endsWith_is_string)

lemma validateFilePath_v3_total:
  "validateFilePath_v3 h f path =
     Inr (if truthy path then path
          else if \<not> truthy f then Val (join_paths h (TMPDIR h) DEFAULT_FILE_NAME)
          else Val (join_paths h (TMPDIR h)
                     (if endsWith f ''.ics'' then toStr f else toStr f @ ''.ics'')))"
  by (auto simp: validateFilePath_v3_def dest: endsWith_is_string)

lemma validateFilePath_v2_truthy:
  "truthy f \<Longrightarrow>
   validateFilePath_v2 h f path =
     Inr (if truthy path then path
          else Val (join_paths h (TMPDIR h)
                     (if endsWith f ''.ics'' then toStr f else toStr f @ ''.ics'')))"
  by (auto simp: validateFilePath_v2_def js_or_def dest: endsWith_is_string)

lemma validateFilePath_v2_throws:
  "\<not> truthy path \<Longrightarrow> \<not> truthy f \<Longrightarrow> f \<noteq> Val [] \<Longrightarrow>
   validateFilePath_v2 h f path = Inl TypeError"
  by (cases f)
     (simp_all add: validateFilePath_v2_def js_or_def endsWith_def DEFAULT_FILE_NAME_def)

text \<open>The specification's rule for \<^verbatim>\<open>validateFilePath\<close> holds of \<open>v3\<close>, where "given" is
  "truthy": the explicit path as it is; else the temp directory joined with the file
  name, \<^verbatim>\<open>.ics\<close> appended unless it ends the name; else with the default file name.\<close>

lemma validateFilePath_v3_rule:
  "(truthy path \<longrightarrow> validateFilePath_v3 h f path = Inr path)
   \<and> (\<not> truthy path \<and> f = Val s \<and> s \<noteq> [] \<and> endsWith (Val s) ''.ics''
        \<longrightarrow> validateFilePath_v3 h f path = Inr (Val (join_paths h (TMPDIR h) s)))
   \<and> (\<not> truthy path \<and> f = Val s \<and> s \<noteq> [] \<and> \<not> endsWith (Val s) ''.ics''
        \<longrightarrow> validateFilePath_v3 h f path = Inr (Val (join_paths h (TMPDIR h) (s @ ''.ics''))))
   \<and> (\<not> truthy path \<and> \<not> truthy f
        \<longrightarrow> validateFilePath_v3 h f path =
              Inr (Val (join_paths h (TMPDIR h) ''calendar-event.ics'')))"
  by (simp add: validateFilePath_v3_total DEFAULT_FILE_NAME_def)

text \<open>\<open>v1\<close> and \<open>v2\<close> follow the rule for a file name that is a non-empty string.\<close>

lemma validateFilePath_named:
  "s \<noteq> [] \<Longrightarrow>
   validateFilePath_v1 h (Val s) path = validateFilePath_v3 h (Val s) path
   \<and> validateFilePath_v2 h (Val s) path = validateFilePath_v3 h (Val s) path"
  by (simp add: validateFilePath_v1_total validateFilePath_v3_total validateFilePath_v2_truthy)

text \<open>
  Claim C2 (not met by \<open>v1\<close> and \<open>v2\<close>). With neither an explicit path nor a file name, the
  claim asks for the temp directory joined with \<^verbatim>\<open>calendar-event.ics\<close>. On a host whose
  temp directory is \<^verbatim>\<open>/tmp\<close>, \<open>v1\<close> returns \<^verbatim>\<open>/tmp/undefined.ics\<close> and \<open>v2\<close> throws a
  \<^verbatim>\<open>TypeError\<close>; \<open>v3\<close> returns \<^verbatim>\<open>/tmp/calendar-event.ics\<close>.
\<close>

theorem validateFilePath_without_file_name:
  "validateFilePath_v1 sample_host Undefined Undefined = Inr (Val ''/tmp/undefined.ics'')
   \<and> validateFilePath_v2 sample_host Undefined Undefined = Inl TypeError
   \<and> validateFilePath_v3 sample_host Undefined Undefined = Inr (Val ''/tmp/calendar-event.ics'')"
  by (simp add: validateFilePath_v1_def validateFilePath_v2_def validateFilePath_v3_def
      endsWith_def js_or_def DEFAULT_FILE_NAME_def sample_host_def)

subsection \<open>The whole document\<close>

lemma join_concat:
  assumes "list_all (\<lambda>b. b \<noteq> []) bs"
  shows "join (map (\<lambda>b. join b sep) bs) sep = join (concat bs) sep"
  using assms
proof (induction bs)
  case Nil
  then show ?case by simp
next
  case (Cons b bs)
  then have b: "b \<noteq> []" and IH: "join (map (\<lambda>b. join b sep) bs) sep = join (concat bs) sep"
    by simp_all
  have "join (join b sep # map (\<lambda>b. join b sep) bs) sep
          = join (b @ map (\<lambda>b. join b sep) bs) sep"
    using join_flatten [OF b, of "[]" sep "map (\<lambda>b. join b sep) bs"] by simp
  also have "\<dots> = join (b @ concat bs) sep"
  proof (cases "bs = []")
    case True
    then show ?thesis by simp
  next
    case False
    with Cons.prems have "concat bs \<noteq> []" by (cases bs) auto
    with b False IH show ?thesis by (simp add: join_append)
  qed
  finally show ?case by simp
qed

lemma formatCalendar_lines:
  assumes "list_all (\<lambda>b. b \<noteq> []) bs"
  shows "formatCalendar h (join (map (\<lambda>b. join b (SYSTEM_LINE_BREAK h)) bs) (SYSTEM_LINE_BREAK h))
           = join (calendar_lines bs) (SYSTEM_LINE_BREAK h)"
proof -
  let ?sep = "SYSTEM_LINE_BREAK h"
  let ?head = "[''BEGIN:VCALENDAR'', ''VERSION:2.0'']"
  have head: "\<And>rest. join (join ?head ?sep # rest) ?sep = join (?head @ rest) ?sep"
    using join_flatten [of ?head "[]" ?sep] by simp
  show ?thesis
  proof (cases "bs = []")
    case True
    then show ?thesis
      by (simp only: formatCalendar_def ICAL_calendarHeader_def ICAL_calendarFooter_def head
          calendar_lines_def)
         simp
  next
    case False
    with assms have ne: "concat bs \<noteq> []" by (cases bs) auto
    have "formatCalendar h (join (map (\<lambda>b. join b ?sep) bs) ?sep)
            = join (?head @ join (concat bs) ?sep # [''END:VCALENDAR'']) ?sep"
      by (simp only: formatCalendar_def ICAL_calendarHeader_def ICAL_calendarFooter_def head
          join_concat [OF assms])
    also have "\<dots> = join (?head @ concat bs @ [''END:VCALENDAR'']) ?sep"
      using ne by (rule join_flatten)
    finally show ?thesis using False by (simp add: calendar_lines_def)
  qed
qed

lemma event_block_lines_nonempty: "event_block_lines tz ev \<noteq> []"
  by (simp add: event_block_lines_def)

lemma validatedEvents_total:
  "validatedEvents h evs =
     Inr (map (\<lambda>ev. projr (validateEventOptions h ev)) (events_or_default evs))"
proof -
  have m: "\<And>xs. map_err (validateEventOptions h) xs
              = Inr (map (\<lambda>ev. projr (validateEventOptions h ev)) xs)"
    by (rule map_err_total) (rule validateEventOptions_Inr)
  show ?thesis unfolding validatedEvents_def m by (simp add: events_or_default_def)
qed

lemma format_blocks_v1:
  assumes "list_all canonical_event evs"
  shows "map_err (formatEvent_v1 h) evs =
           Inr (map (\<lambda>b. join b (SYSTEM_LINE_BREAK h)) (map (event_block_lines (tz_guess h)) evs))"
proof -
  have "map_err (formatEvent_v1 h) evs =
          Inr (map (\<lambda>ev. join (event_block_lines (tz_guess h) ev) (SYSTEM_LINE_BREAK h)) evs)"
    by (rule map_err_total) (use assms in \<open>simp add: list_all_iff formatEvent_v1_canonical\<close>)
  then show ?thesis by (simp add: comp_def)
qed

lemma format_blocks_v3:
  assumes "list_all canonical_event evs"
  shows "map_err (\<lambda>ev. formatEvent_v3 h ev opts) evs =
           Inr (map (\<lambda>b. join b (SYSTEM_LINE_BREAK h))
                  (map (event_block_lines (toStr (timeZone opts))) evs))"
proof -
  have "map_err (\<lambda>ev. formatEvent_v3 h ev opts) evs =
          Inr (map (\<lambda>ev. join (event_block_lines (toStr (timeZone opts)) ev)
                           (SYSTEM_LINE_BREAK h)) evs)"
    by (rule map_err_total) (use assms in \<open>simp add: list_all_iff formatEvent_v3_canonical\<close>)
  then show ?thesis by (simp add: comp_def)
qed

lemma blocks_nonempty: "list_all (\<lambda>b. b \<noteq> []) (map (event_block_lines tz) evs)"
  by (simp add: list_all_iff event_block_lines_nonempty)

text \<open>The document for raw options (not marked valid) with typed events: every event is
  validated, then formatted with the zone of the revision.\<close>

lemma getCalendar_v1_raw:
  assumes "\<not> truthy (isValid co)" and "list_all raw_event (events_or_default (events co))"
  shows "getCalendar_v1 h co =
           Inr (join (calendar_lines
                       (map (event_block_lines (tz_guess h))
                          (map (\<lambda>ev. projr (validateEventOptions h ev))
                             (events_or_default (events co)))))
                  (SYSTEM_LINE_BREAK h))"
proof -
  let ?V = "map (\<lambda>ev. projr (validateEventOptions h ev)) (events_or_default (events co))"
  from assms(2) have "list_all canonical_event ?V"
    by (simp add: list_all_iff canonical_validated)
  then have "map_err (formatEvent_v1 h) ?V =
           Inr (map (\<lambda>b. join b (SYSTEM_LINE_BREAK h)) (map (event_block_lines (tz_guess h)) ?V))"
    by (rule format_blocks_v1)
  with assms(1) have "getCalendar_v1 h co =
      Inr (formatCalendar h (join (map (\<lambda>b. join b (SYSTEM_LINE_BREAK h))
                                    (map (event_block_lines (tz_guess h)) ?V))
                               (SYSTEM_LINE_BREAK h)))"
    by (simp add: getCalendar_v1_def validateCalendarOptions_v1_def validateFilePath_v1_total
        validatedEvents_total)
  then show ?thesis
    by (simp only: formatCalendar_lines [OF blocks_nonempty])
qed

lemma getCalendar_v3_raw:
  assumes "\<not> truthy (isValid co)" and "list_all raw_event (events_or_default (events co))"
  shows "getCalendar_v3 h co =
           Inr (join (calendar_lines
                       (map (event_block_lines (toStr (js_or (timeZone co) (Val (tz_guess h)))))
                          (map (\<lambda>ev. projr (validateEventOptions h ev))
                             (events_or_default (events co)))))
                  (SYSTEM_LINE_BREAK h))"
proof -
  let ?V = "map (\<lambda>ev. projr (validateEventOptions h ev)) (events_or_default (events co))"
  let ?tz = "js_or (timeZone co) (Val (tz_guess h))"
  from assms(2) have "list_all canonical_event ?V"
    by (simp add: list_all_iff canonical_validated)
  then have "\<And>opts. map_err (\<lambda>ev. formatEvent_v3 h ev opts) ?V =
           Inr (map (\<lambda>b. join b (SYSTEM_LINE_BREAK h))
                  (map (event_block_lines (toStr (timeZone opts))) ?V))"
    by (rule format_blocks_v3)
  with assms(1) have "getCalendar_v3 h co =
      Inr (formatCalendar h (join (map (\<lambda>b. join b (SYSTEM_LINE_BREAK h))
                                    (map (event_block_lines (toStr ?tz)) ?V))
                               (SYSTEM_LINE_BREAK h)))"
    by (simp add: getCalendar_v3_def validateCalendarOptions_v3_def validateFilePath_v3_total
        validatedEvents_total)
  then show ?thesis
    by (simp only: formatCalendar_lines [OF blocks_nonempty])
qed

text \<open>The document for options marked valid: the events are formatted as they are.\<close>

lemma getCalendar_v1_prevalidated:
  assumes "prevalidated co"
  shows "getCalendar_v1 h co =
           Inr (join (calendar_lines (map (event_block_lines (tz_guess h)) (collection (events co))))
                  (SYSTEM_LINE_BREAK h))"
proof -
  from assms have "list_all canonical_event (collection (events co))"
    by (cases "events co") (simp_all add: prevalidated_def)
  then have "map_err (formatEvent_v1 h) (collection (events co)) =
           Inr (map (\<lambda>b. join b (SYSTEM_LINE_BREAK h))
                  (map (event_block_lines (tz_guess h)) (collection (events co))))"
    by (rule format_blocks_v1)
  with assms have "getCalendar_v1 h co =
      Inr (formatCalendar h (join (map (\<lambda>b. join b (SYSTEM_LINE_BREAK h))
                                    (map (event_block_lines (tz_guess h)) (collection (events co))))
                               (SYSTEM_LINE_BREAK h)))"
    by (simp add: getCalendar_v1_def validateCalendarOptions_v1_def prevalidated_def)
  then show ?thesis
    by (simp only: formatCalendar_lines [OF blocks_nonempty])
qed

lemma getCalendar_v3_prevalidated:
  assumes "prevalidated co"
  shows "getCalendar_v3 h co =
           Inr (join (calendar_lines (map (event_block_lines (toStr (timeZone co)))
                                        (collection (events co))))
                  (SYSTEM_LINE_BREAK h))"
proof -
  from assms have "list_all canonical_event (collection (events co))"
    by (cases "events co") (simp_all add: prevalidated_def)
  then have "map_err (\<lambda>ev. formatEvent_v3 h ev co) (collection (events co)) =
           Inr (map (\<lambda>b. join b (SYSTEM_LINE_BREAK h))
                  (map (event_block_lines (toStr (timeZone co))) (collection (events co))))"
    by (rule format_blocks_v3)
  with assms have "getCalendar_v3 h co =
      Inr (formatCalendar h (join (map (\<lambda>b. join b (SYSTEM_LINE_BREAK h))
                                    (map (event_block_lines (toStr (timeZone co)))
                                       (collection (events co))))
                               (SYSTEM_LINE_BREAK h)))"
    by (simp add: getCalendar_v3_def validateCalendarOptions_v3_def prevalidated_def)
  then show ?thesis
    by (simp only: formatCalendar_lines [OF blocks_nonempty])
qed

text \<open>\<open>v2\<close> differs from \<open>v1\<close> in \<^verbatim>\<open>validateFilePath\<close> only: with options marked valid, or
  with a file name, its document is that of \<open>v1\<close>; without either it throws.\<close>

lemma getCalendar_v2_as_v1:
  "truthy (isValid co) \<or> truthy (filename co) \<Longrightarrow> getCalendar_v2 h co = getCalendar_v1 h co"
  by (auto simp: getCalendar_v2_def getCalendar_v1_def validateCalendarOptions_v2_def
      validateCalendarOptions_v1_def validateFilePath_v2_truthy validateFilePath_v1_total)

lemma getCalendar_v2_throws:
  "\<not> truthy (isValid co) \<Longrightarrow> \<not> truthy (filename co) \<Longrightarrow> filename co \<noteq> Val [] \<Longrightarrow>
   getCalendar_v2 h co = Inl TypeError"
  by (simp add: getCalendar_v2_def validateCalendarOptions_v2_def validateFilePath_v2_throws)

subsection \<open>No events, and an empty list of events\<close>





subsection \<open>Determinism\<close>

text \<open>
  Claim C9. For every canonical options object marked valid, \<^verbatim>\<open>getCalendar\<close> throws no
  error and returns a text that depends on the options, the line separator and (in \<open>v1\<close>
  and \<open>v2\<close>) the module's zone only: two calls on hosts that agree on these return the
  same text, whatever their clocks read.
\<close>

theorem getCalendar_deterministic:
  assumes "prevalidated co"
    and "SYSTEM_LINE_BREAK h' = SYSTEM_LINE_BREAK h"
    and "tz_guess h' = tz_guess h"
  shows "(\<exists>text. getCalendar_v1 h co = Inr text \<and> getCalendar_v1 h' co = Inr text)
       \<and> (\<exists>text. getCalendar_v2 h co = Inr text \<and> getCalendar_v2 h' co = Inr text)
       \<and> (\<exists>text. getCalendar_v3 h co = Inr text \<and> getCalendar_v3 h' co = Inr text)"
proof -
  from assms(1) have valid: "truthy (isValid co)"
    by (simp add: prevalidated_def)
  from assms have 1: "\<exists>text. getCalendar_v1 h co = Inr text \<and> getCalendar_v1 h' co = Inr text"
    by (simp add: getCalendar_v1_prevalidated)
  with valid have 2: "\<exists>text. getCalendar_v2 h co = Inr text \<and> getCalendar_v2 h' co = Inr text"
    by (simp add: getCalendar_v2_as_v1)
  from assms have 3: "\<exists>text. getCalendar_v3 h co = Inr text \<and> getCalendar_v3 h' co = Inr text"
    by (simp add: getCalendar_v3_prevalidated)
  from 1 2 3 show ?thesis by blast
qed

theorem getCalendar_deterministic_witness:
  "prevalidated validated_options
   \<and> SYSTEM_LINE_BREAK later_host = SYSTEM_LINE_BREAK sample_host
   \<and> tz_guess later_host = tz_guess sample_host
   \<and> clock later_host \<noteq> clock sample_host
   \<and> (\<exists>text. getCalendar_v1 sample_host validated_options = Inr text
             \<and> getCalendar_v1 later_host validated_options = Inr text)
   \<and> (\<exists>text. getCalendar_v2 sample_host validated_options = Inr text
             \<and> getCalendar_v2 later_host validated_options = Inr text)
   \<and> (\<exists>text. getCalendar_v3 sample_host validated_options = Inr text
             \<and> getCalendar_v3 later_host validated_options = Inr text)"
proof -
  have p: "prevalidated validated_options"
    by (simp add: prevalidated_def validated_options_def canonical_event_def meeting_def
        has_name_and_email_def ann_def cyd_def)
  have s: "SYSTEM_LINE_BREAK later_host = SYSTEM_LINE_BREAK sample_host"
    and z: "tz_guess later_host = tz_guess sample_host"
    and c: "clock later_host \<noteq> clock sample_host"
    by (simp_all add: later_host_def sample_host_def)
  from getCalendar_deterministic [OF p s z] p s z c show ?thesis by blast
qed

subsection \<open>The time zone option\<close>

text \<open>\<open>v1\<close> and \<open>v2\<close> never read the \<^verbatim>\<open>timeZone\<close> option: the document does not depend on
  it.\<close>

lemma getCalendar_v1_ignores_timeZone:
  "getCalendar_v1 h (co\<lparr>timeZone := z\<rparr>) = getCalendar_v1 h co"
  by (simp add: getCalendar_v1_def validateCalendarOptions_v1_def cong: sum.case_cong)

lemma getCalendar_v2_ignores_timeZone:
  "getCalendar_v2 h (co\<lparr>timeZone := z\<rparr>) = getCalendar_v2 h co"
  by (simp add: getCalendar_v2_def validateCalendarOptions_v2_def cong: sum.case_cong)

text \<open>\<open>v3\<close>, for raw options (not marked valid) with typed events: the zone after \<^verbatim>\<open>TZID=\<close>
  in the \<^verbatim>\<open>DTSTAMP\<close>, \<^verbatim>\<open>DTSTART\<close> and \<^verbatim>\<open>DTEND\<close> lines of every block is the supplied
  \<^verbatim>\<open>timeZone\<close> when it is a non-empty string, and the host's guess when it is absent.\<close>

lemma getCalendar_v3_zone:
  assumes "\<not> truthy (isValid co)" and "list_all raw_event (events_or_default (events co))"
  shows "(timeZone co = Val z \<and> z \<noteq> [] \<longrightarrow>
            getCalendar_v3 h co =
              Inr (join (calendar_lines
                          (map (event_block_lines z)
                             (map (\<lambda>ev. projr (validateEventOptions h ev))
                                (events_or_default (events co)))))
                     (SYSTEM_LINE_BREAK h)))
       \<and> (\<not> truthy (timeZone co) \<longrightarrow>
            getCalendar_v3 h co =
              Inr (join (calendar_lines
                          (map (event_block_lines (tz_guess h))
                             (map (\<lambda>ev. projr (validateEventOptions h ev))
                                (events_or_default (events co)))))
                     (SYSTEM_LINE_BREAK h)))"
  using assms by (simp add: getCalendar_v3_raw js_or_def)

text \<open>
  Claim C1 (not met by \<open>v1\<close> and \<open>v2\<close>). With the option \<^verbatim>\<open>timeZone: 'Asia/Tokyo'\<close> on a host
  whose zone is \<^verbatim>\<open>Etc/UTC\<close>, the claim asks for \<^verbatim>\<open>TZID=Asia/Tokyo\<close> in the \<^verbatim>\<open>DTSTAMP\<close>,
  \<^verbatim>\<open>DTSTART\<close> and \<^verbatim>\<open>DTEND\<close> lines. \<open>v1\<close> and \<open>v2\<close> (here with a file name, without which
  \<open>v2\<close> throws) render \<^verbatim>\<open>TZID=Etc/UTC\<close>; \<open>v3\<close> renders \<^verbatim>\<open>TZID=Asia/Tokyo\<close>.
\<close>

theorem timeZone_option_not_rendered:
  "getCalendar_v1 sample_host tokyo_options =
       Inr (join [''BEGIN:VCALENDAR'', ''VERSION:2.0'', [], ''BEGIN:VEVENT'',
                  ''DTSTAMP;TZID=Etc/UTC:20231114T221320'',
                  ''DTSTART;TZID=Etc/UTC:20231114T221320'',
                  ''DTEND;TZID=Etc/UTC:20231114T231320'',
                  ''DESCRIPTION:'', ''SUMMARY:New Event'', ''END:VEVENT'', ''END:VCALENDAR'']
                 [CHR 0x0A])
   \<and> getCalendar_v2 sample_host (tokyo_options\<lparr>filename := Val ''tokyo''\<rparr>) =
       Inr (join [''BEGIN:VCALENDAR'', ''VERSION:2.0'', [], ''BEGIN:VEVENT'',
                  ''DTSTAMP;TZID=Etc/UTC:20231114T221320'',
                  ''DTSTART;TZID=Etc/UTC:20231114T221320'',
                  ''DTEND;TZID=Etc/UTC:20231114T231320'',
                  ''DESCRIPTION:'', ''SUMMARY:New Event'', ''END:VEVENT'', ''END:VCALENDAR'']
                 [CHR 0x0A])
   \<and> getCalendar_v3 sample_host tokyo_options =
       Inr (join [''BEGIN:VCALENDAR'', ''VERSION:2.0'', [], ''BEGIN:VEVENT'',
                  ''DTSTAMP;TZID=Asia/Tokyo:20231114T221320'',
                  ''DTSTART;TZID=Asia/Tokyo:20231114T221320'',
                  ''DTEND;TZID=Asia/Tokyo:20231114T231320'',
                  ''DESCRIPTION:'', ''SUMMARY:New Event'', ''END:VEVENT'', ''END:VCALENDAR'']
                 [CHR 0x0A])"
  by code_simp

subsection \<open>Writing the file\<close>

lemma opt_bool_rsvp_or_false: "opt_bool (rsvp_or_false r)"
  by (cases r) simp_all

lemma raw_copied: "raw_entry a \<Longrightarrow> raw_entry (copied_entry a)"
  by (cases a) (simp_all add: raw_person_def opt_bool_rsvp_or_false)

lemma path_join_error: "path_join h a b = Inl e \<Longrightarrow> e = TypeError"
  by (cases a; cases b) simp_all

lemma raw_validateOrganizer: "raw_entry org \<Longrightarrow> raw_entry (validateOrganizer org)"
  by (simp add: validateOrganizer_def)

lemma opt_string_js_or: "opt_string a \<Longrightarrow> opt_string b \<Longrightarrow> opt_string (js_or a b)"
  by (simp add: js_or_def)

text \<open>A validated event is again a typed raw event: \<^verbatim>\<open>createCalendar\<close> hands validated
  options, which carry no \<^verbatim>\<open>isValid\<close> marker, to \<^verbatim>\<open>getCalendar\<close>, which validates them a
  second time.\<close>

lemma raw_validated:
  assumes "raw_event ev"
  shows "raw_event (projr (validateEventOptions h ev))"
proof -
  from assms have "list_all raw_entry (collection (attendees ev))"
    by (simp add: raw_event_def)
  then have "list_all raw_entry
               (map copied_entry (filter entry_has_name_and_email (collection (attendees ev))))"
    by (simp add: list_all_iff raw_copied)
  with assms show ?thesis
    by (simp add: validated_raw_event raw_event_def opt_string_js_or raw_validateOrganizer)
qed

lemma toFile_recording:
  "toFile h data (Val file) recording =
     Inr [(case write_error h file data of None \<Rightarrow> Null | Some msg \<Rightarrow> Val (IOError msg),
           Undefined)]"
  by (simp add: toFile_def recording_def split: option.split)

text \<open>\<^verbatim>\<open>createCalendar\<close> of \<open>v1\<close> and of \<open>v3\<close>, for raw options with typed events and a path
  that is a string or absent: the callback is called exactly once, with the error when
  the write fails and with \<^verbatim>\<open>null\<close> when it succeeds; its second argument is \<^verbatim>\<open>undefined\<close> in
  both cases.\<close>

lemma createCalendar_v1_calls:
  assumes "\<not> truthy (isValid co)" and "list_all raw_event (events_or_default (events co))"
    and "opt_string path"
  shows "\<exists>file data.
           createCalendar_v1 h co path recording =
             Inr [(case write_error h file data of None \<Rightarrow> Null | Some msg \<Rightarrow> Val (IOError msg),
                   Undefined)]"
proof -
  let ?V = "map (\<lambda>ev. projr (validateEventOptions h ev)) (events_or_default (events co))"
  from assms(3) have "\<exists>dest. validateFilePath_v1 h (filename co) path = Inr (Val dest)"
    by (cases path) (simp_all add: validateFilePath_v1_total)
  then obtain dest where dest: "validateFilePath_v1 h (filename co) path = Inr (Val dest)"
    by blast
  let ?co = "\<lparr>isValid = Undefined, filename = Undefined, filePath = Val dest, events = Val ?V,
             timeZone = Undefined\<rparr>"
  from assms(1) dest have v: "validateCalendarOptions_v1 h co path = Inr ?co"
    by (simp add: validateCalendarOptions_v1_def validatedEvents_total)
  from assms(2) have "list_all raw_event (events_or_default (events ?co))"
    by (simp add: events_or_default_def list_all_iff raw_validated)
  then obtain data where "getCalendar_v1 h ?co = Inr data"
    using getCalendar_v1_raw [of ?co h] by simp
  with v show ?thesis
    by (auto simp: createCalendar_v1_def toFile_recording)
qed

lemma createCalendar_v3_calls:
  assumes "\<not> truthy (isValid co)" and "list_all raw_event (events_or_default (events co))"
    and "opt_string path"
  shows "\<exists>file data.
           createCalendar_v3 h co path recording =
             Inr [(case write_error h file data of None \<Rightarrow> Null | Some msg \<Rightarrow> Val (IOError msg),
                   Undefined)]"
proof -
  let ?V = "map (\<lambda>ev. projr (validateEventOptions h ev)) (events_or_default (events co))"
  from assms(3) have "\<exists>dest. validateFilePath_v3 h (filename co) path = Inr (Val dest)"
    by (cases path) (simp_all add: validateFilePath_v3_total)
  then obtain dest where dest: "validateFilePath_v3 h (filename co) path = Inr (Val dest)"
    by blast
  let ?co = "\<lparr>isValid = Undefined, filename = Undefined, filePath = Val dest, events = Val ?V,
             timeZone = js_or (timeZone co) (Val (tz_guess h))\<rparr>"
  from assms(1) dest have v: "validateCalendarOptions_v3 h co path = Inr ?co"
    by (simp add: validateCalendarOptions_v3_def validatedEvents_total)
  from assms(2) have "list_all raw_event (events_or_default (events ?co))"
    by (simp add: events_or_default_def list_all_iff raw_validated)
  then obtain data where "getCalendar_v3 h ?co = Inr data"
    using getCalendar_v3_raw [of ?co h] by simp
  with v show ?thesis
    by (auto simp: createCalendar_v3_def toFile_recording)
qed

text \<open>\<open>v2\<close> throws before it writes: the validated options it hands to \<^verbatim>\<open>getCalendar\<close> have
  no file name.\<close>

lemma createCalendar_v2_throws:
  assumes "\<not> truthy (isValid co)"
  shows "createCalendar_v2 h co path callback = Inl TypeError"
proof (cases "validateCalendarOptions_v2 h co path")
  case (Inl e)
  with assms have "e = TypeError"
    by (auto simp: validateCalendarOptions_v2_def validateFilePath_v2_def validatedEvents_total
        split: if_splits sum.splits dest: path_join_error)
  with Inl show ?thesis by (simp add: createCalendar_v2_def)
next
  case (Inr v)
  with assms have "\<not> truthy (isValid v)" "filename v = Undefined"
    by (auto simp: validateCalendarOptions_v2_def split: sum.splits)
  then have "getCalendar_v2 h v = Inl TypeError"
    by (simp add: getCalendar_v2_throws)
  with Inr show ?thesis by (simp add: createCalendar_v2_def)
qed

text \<open>
  Claim C3 (not met). After a successful write the claim asks for the callback to be
  called with \<^verbatim>\<open>null\<close> and the resolved destination path. With the options \<^verbatim>\<open>{}\<close> and the
  path \<^verbatim>\<open>/tmp/out.ics\<close> on a host that can write there, \<open>v1\<close> and \<open>v3\<close> call it once with
  \<^verbatim>\<open>null\<close> and \<^verbatim>\<open>undefined\<close>, and \<open>v2\<close> throws a \<^verbatim>\<open>TypeError\<close> without calling it. With a path
  the host cannot write to, \<open>v1\<close> and \<open>v3\<close> call it once with the error, as claimed.
\<close>

theorem createCalendar_success_passes_no_path:
  "createCalendar_v1 sample_host no_options (Val ''/tmp/out.ics'') recording
     = Inr [(Null, Undefined)]
   \<and> createCalendar_v3 sample_host no_options (Val ''/tmp/out.ics'') recording
     = Inr [(Null, Undefined)]
   \<and> createCalendar_v2 sample_host no_options (Val ''/tmp/out.ics'') recording
     = Inl TypeError
   \<and> createCalendar_v1 sample_host no_options (Val ''/root/out.ics'') recording
     = Inr [(Val (IOError ''EACCES''), Undefined)]
   \<and> createCalendar_v3 sample_host no_options (Val ''/root/out.ics'') recording
     = Inr [(Val (IOError ''EACCES''), Undefined)]"
  by code_simp

end
